theory Spec2Isabelle
  imports Complex_Main
begin

section \<open>Common vocabulary\<close>

text \<open>
  The three modules of the repository are numpy programs over floating-point arrays.
  The embedding computes over the reals: a Python float is a \<open>real\<close>, an array a list,
  a 2D array a list of rows. The entries of the 2D power spectrum may also be \<open>inf\<close> or
  \<open>nan\<close>, which the division by the transform of the beam produces without raising.
  Elsewhere, where numpy would leave the reals (a scalar division by zero, the logarithm
  of a non-positive number) the model stops with the marker \<open>NonFinite\<close>. Rounding is
  not modelled.
  A Python exception is an \<open>Inl\<close> of the result; once a call has raised, only the
  exception is reported.
\<close>

datatype error =
    TypeError
  | ValueError
  | IndexError
  | AttributeError
  | AssertionError
  | UnitConversionError
  | NonFinite
  | LibraryError nat

datatype warning =
    ChannelWidthMatch
  | NotEnoughPoints
  | BreakFitFailed

definition ebind :: "error + 'a \<Rightarrow> ('a \<Rightarrow> error + 'b) \<Rightarrow> error + 'b" where
  "ebind m f = (case m of Inl e \<Rightarrow> Inl e | Inr x \<Rightarrow> f x)"

definition np_divide :: "'a::field \<Rightarrow> 'a \<Rightarrow> error + 'a" where
  "np_divide a b = (if b = 0 then Inl NonFinite else Inr (a / b))"

definition index0 :: "'a list \<Rightarrow> error + 'a" where
  "index0 xs = (case xs of [] \<Rightarrow> Inl IndexError | x # _ \<Rightarrow> Inr x)"

definition np_diff :: "real list \<Rightarrow> real list" where
  "np_diff xs = map2 (\<lambda>a b. b - a) xs (tl xs)"

definition array_min :: "real list \<Rightarrow> real" where
  "array_min xs = fold min (tl xs) (hd xs)"

definition array_max :: "real list \<Rightarrow> real" where
  "array_max xs = fold max (tl xs) (hd xs)"

definition linspace :: "real \<Rightarrow> real \<Rightarrow> nat \<Rightarrow> real list" where
  "linspace start stop num =
     (if num = 1 then [start]
      else map (\<lambda>i. start + real i * ((stop - start) / real (num - 1))) [0..<num])"

section \<open>Spectral regridding (slice_thickness.py)\<close>

text \<open>
  A spectral cube is its spectral axis (the values, in the cube's spectral unit), that
  unit, and the channel data, which only the spectral-cube library reads. The cube keeps
  one axis sample per channel, so \<open>cube.shape[0]\<close> is the length of the axis.
  The library calls (\<open>Unit.is_equivalent\<close>, \<open>Quantity.to\<close>, \<open>downsample_axis\<close>,
  \<open>spectral_smooth\<close> with the Gaussian kernel of a given width, \<open>spectral_interpolate\<close>)
  are parameters.
\<close>

record ('u, 'd) cube =
  spectral_axis :: "real list"
  spectral_unit :: 'u
  channels :: 'd

datatype ('u, 'd) cube_arg = SpectralCube "('u, 'd) cube" | NotACube

datatype 'u width_arg = IntWidth int | QuantityWidth real 'u | OtherWidth

record ('u, 'd) cube_lib =
  is_equivalent_pix :: "'u \<Rightarrow> bool"
  quantity_to :: "real \<Rightarrow> 'u \<Rightarrow> 'u \<Rightarrow> error + real"
  downsample_axis :: "('u, 'd) cube \<Rightarrow> int \<Rightarrow> error + ('u, 'd) cube"
  spectral_smooth :: "('u, 'd) cube \<Rightarrow> real \<Rightarrow> error + ('u, 'd) cube"
  spectral_interpolate :: "('u, 'd) cube \<Rightarrow> real list \<Rightarrow> error + ('u, 'd) cube"

definition fwhm_factor :: real where
  "fwhm_factor = sqrt (8 * ln 2)"

text \<open>Lines 91-93: \<open>np.diff(cube.spectral_axis[:2])[0]\<close>.\<close>

definition current_resolution :: "('u, 'd) cube \<Rightarrow> error + real" where
  "current_resolution c = index0 (np_diff (take 2 (spectral_axis c)))"

text \<open>Lines 95-98: the target width in the cube's spectral unit.\<close>

definition target_resolution ::
  "('u, 'd) cube_lib \<Rightarrow> ('u, 'd) cube \<Rightarrow> real \<Rightarrow> 'u \<Rightarrow> real \<Rightarrow> error + real" where
  "target_resolution lib c v u spec_width =
     (if is_equivalent_pix lib u then Inr (v * spec_width)
      else quantity_to lib v u (spectral_unit c))"

text \<open>Lines 122-129: the new spectral axis.\<close>

definition new_specaxis :: "('u, 'd) cube \<Rightarrow> real \<Rightarrow> real \<Rightarrow> real list" where
  "new_specaxis c diff_factor cur =
     (let num_chan = nat \<lfloor>real (length (spectral_axis c)) / diff_factor\<rfloor>;
          grid = linspace (array_min (spectral_axis c)) (array_max (spectral_axis c)) num_chan
      in if cur < 0 then rev grid else grid)"

text \<open>Lines 114-132: smoothing, then interpolation onto the new axis.\<close>

definition smooth_and_resample ::
  "('u, 'd) cube_lib \<Rightarrow> ('u, 'd) cube \<Rightarrow> real \<Rightarrow> real \<Rightarrow> real
     \<Rightarrow> error + warning list \<times> ('u, 'd) cube" where
  "smooth_and_resample lib c target cur diff_factor =
     (let pixel_scale = \<bar>cur\<bar>;
          gaussian_width = sqrt (target\<^sup>2 - cur\<^sup>2) / pixel_scale / fwhm_factor
      in ebind (spectral_smooth lib c gaussian_width) (\<lambda>new_cube.
         ebind (spectral_interpolate lib new_cube (new_specaxis c diff_factor cur)) (\<lambda>r.
         Inr ([], r))))"

text \<open>
  Lines 82-112: the checks of the regrid method. On a cube whose first two channels
  coincide the ratio of line 100 is \<open>inf\<close> or \<open>nan\<close> in numpy; the model stops there
  with \<open>NonFinite\<close>.
\<close>

definition regrid ::
  "('u, 'd) cube_lib \<Rightarrow> ('u, 'd) cube \<Rightarrow> real \<Rightarrow> 'u \<Rightarrow> error + warning list \<times> ('u, 'd) cube" where
  "regrid lib c v u =
     ebind (current_resolution c) (\<lambda>spec_width.
     ebind (current_resolution c) (\<lambda>cur.
     ebind (target_resolution lib c v u spec_width) (\<lambda>target.
     ebind (np_divide target cur) (\<lambda>q.
       let diff_factor = \<bar>q\<bar> in
       if diff_factor = 1 then Inr ([ChannelWidthMatch], c)
       else if diff_factor < 1 then Inl ValueError
       else smooth_and_resample lib c target cur diff_factor))))"

text \<open>
  The function itself. Its fourth Python parameter, \<open>downsamp_function\<close>, is never read
  by the body and is left out.
\<close>

definition spectral_regrid_cube ::
  "('u, 'd) cube_lib \<Rightarrow> ('u, 'd) cube_arg \<Rightarrow> 'u width_arg \<Rightarrow> string
     \<Rightarrow> error + warning list \<times> ('u, 'd) cube" where
  "spectral_regrid_cube lib cube channel_width method =
     (case cube of
        NotACube \<Rightarrow> Inl TypeError
      | SpectralCube c \<Rightarrow>
          if method \<notin> set [''regrid'', ''downsample''] then Inl ValueError
          else if method = ''downsample'' then
            (case channel_width of
               IntWidth n \<Rightarrow> ebind (downsample_axis lib c n) (\<lambda>r. Inr ([], r))
             | _ \<Rightarrow> Inl TypeError)
          else
            (case channel_width of
               QuantityWidth v u \<Rightarrow> regrid lib c v u
             | _ \<Rightarrow> Inl TypeError))"

section \<open>Python objects and numpy arrays\<close>

text \<open>
  An instance attribute is absent until a method assigns it; it may then hold Python's
  \<open>None\<close> or a value. Reading an absent attribute raises \<open>AttributeError\<close>, and so
  does asking \<open>None\<close> for a member.
\<close>

datatype 'a attr = Absent | PyNone | Val 'a

definition attr_get :: "'a attr \<Rightarrow> error + 'a attr" where
  "attr_get a = (case a of Absent \<Rightarrow> Inl AttributeError | _ \<Rightarrow> Inr a)"

definition attr_value :: "'a attr \<Rightarrow> error + 'a" where
  "attr_value a = (case a of Val v \<Rightarrow> Inr v | _ \<Rightarrow> Inl AttributeError)"

text \<open>A float that may be \<open>nan\<close> on input (\<open>None\<close>), before the constructor cleans it.\<close>

type_synonym npfloat = "real option"

type_synonym 'a matrix = "'a list list"

text \<open>An entry of an array that may hold \<open>inf\<close> or \<open>nan\<close>.\<close>

datatype 'a entry = Number 'a | Infinity | NotANumber

text \<open>A slope is a float after an ordinary fit and an array of slopes after a break fit.\<close>

datatype pyval = Scalar real | Array "real list"

datatype astropy_unit = DimensionlessUnscaled | PerPix | OtherUnit string

datatype arg = Plain real | Quantity real astropy_unit

definition nan_to_zero :: "npfloat \<Rightarrow> real" where
  "nan_to_zero v = (case v of None \<Rightarrow> 0 | Some r \<Rightarrow> r)"

definition shape :: "'a matrix \<Rightarrow> nat \<times> nat" where
  "shape m = (length m, case m of [] \<Rightarrow> 0 | r # _ \<Rightarrow> length r)"

definition np_ones :: "nat list \<Rightarrow> real matrix" where
  "np_ones row_lengths = map (\<lambda>n. replicate n 1) row_lengths"

text \<open>
  Elementwise arithmetic on two arrays. numpy broadcasts operands of different shape when
  one of them has extent 1 along the differing axis and raises \<open>ValueError\<close> otherwise;
  the 2D arrays met here are built to the data's shape, and the model raises on every
  difference of shape.
\<close>

definition np_multiply :: "real matrix \<Rightarrow> real matrix \<Rightarrow> error + real matrix" where
  "np_multiply A B =
     (if map length A = map length B then Inr (map2 (map2 (*)) A B) else Inl ValueError)"

text \<open>
  Division of arrays raises nothing on a zero divisor: numpy warns and yields \<open>nan\<close> for
  \<open>0 / 0\<close> and an infinity otherwise. The sign of the infinity is not kept: the quotient
  is only ever squared.
\<close>

definition divide_entry :: "'a::field \<Rightarrow> 'a \<Rightarrow> 'a entry" where
  "divide_entry x y =
     (if y \<noteq> 0 then Number (x / y) else if x = 0 then NotANumber else Infinity)"

definition np_true_divide :: "'a::field matrix \<Rightarrow> 'a matrix \<Rightarrow> error + 'a entry matrix" where
  "np_true_divide A B =
     (if map length A \<noteq> map length B then Inl ValueError
      else Inr (map2 (map2 divide_entry) A B))"

fun entry_power2 :: "'a::field entry \<Rightarrow> 'a entry" where
  "entry_power2 (Number z) = Number (z\<^sup>2)"
| "entry_power2 Infinity = Infinity"
| "entry_power2 NotANumber = NotANumber"

definition finite_array :: "'a matrix \<Rightarrow> 'a entry matrix" where
  "finite_array A = map (map Number) A"

definition np_power2 :: "'a::field matrix \<Rightarrow> 'a matrix" where
  "np_power2 A = map (map (\<lambda>z. z\<^sup>2)) A"

text \<open>\<open>numpy.fft.fftshift\<close>: every axis is rolled by half its length, rounded down.\<close>

definition fftshift1 :: "'a list \<Rightarrow> 'a list" where
  "fftshift1 xs = (let k = length xs - length xs div 2 in drop k xs @ take k xs)"

definition fftshift :: "'a matrix \<Rightarrow> 'a matrix" where
  "fftshift m = fftshift1 (map fftshift1 m)"

text \<open>Indexing by a boolean mask; the mask must have the array's length.\<close>

definition mask_select :: "'a list \<Rightarrow> bool list \<Rightarrow> error + 'a list" where
  "mask_select xs keep =
     (if length keep \<noteq> length xs then Inl IndexError
      else Inr (map fst (filter snd (zip xs keep))))"

definition np_log10 :: "real list \<Rightarrow> error + real list" where
  "np_log10 xs = (if list_ex (\<lambda>v. v \<le> 0) xs then Inl NonFinite else Inr (map (log 10) xs))"

definition index1 :: "'a list \<Rightarrow> error + 'a" where
  "index1 xs = (case xs of _ # x # _ \<Rightarrow> Inr x | _ \<Rightarrow> Inl IndexError)"

text \<open>Arithmetic of two slope values, with numpy's broadcasting of floats and 1D arrays.\<close>

fun np_broadcast :: "(real \<Rightarrow> real \<Rightarrow> real) \<Rightarrow> pyval \<Rightarrow> pyval \<Rightarrow> error + pyval" where
  "np_broadcast f (Scalar a) (Scalar b) = Inr (Scalar (f a b))"
| "np_broadcast f (Scalar a) (Array bs) = Inr (Array (map (f a) bs))"
| "np_broadcast f (Array as) (Scalar b) = Inr (Array (map (\<lambda>a. f a b) as))"
| "np_broadcast f (Array as) (Array bs) =
     (if length as = length bs then Inr (Array (map2 f as bs))
      else if length as = 1 then Inr (Array (map (f (hd as)) bs))
      else if length bs = 1 then Inr (Array (map (\<lambda>a. f a (hd bs)) as))
      else Inl ValueError)"

fun np_map :: "(real \<Rightarrow> real) \<Rightarrow> pyval \<Rightarrow> pyval" where
  "np_map f (Scalar a) = Scalar (f a)"
| "np_map f (Array as) = Array (map f as)"

fun has_zero :: "pyval \<Rightarrow> bool" where
  "has_zero (Scalar a) = (a = 0)"
| "has_zero (Array as) = list_ex (\<lambda>v. v = 0) as"

definition np_quotient :: "pyval \<Rightarrow> pyval \<Rightarrow> error + pyval" where
  "np_quotient a b =
     ebind (np_broadcast (/) a b) (\<lambda>q. if has_zero b then Inl NonFinite else Inr q)"

section \<open>The pipeline object (pspec.py, base_pspec2.py)\<close>

text \<open>
  The fields are the attributes the three methods read and write; a Python name with a
  leading underscore \<open>_x\<close> is the field \<open>x_attr\<close> here. \<open>cdelt0\<close> is \<open>self._wcs.wcs.cdelt[0]\<close>,
  \<open>region_distance\<close> is \<open>self.distance\<close>, and \<open>warnings\<close> collects what
  \<open>warnings.warn\<close> emitted, oldest first. The element type of the 2D spectrum is that of
  the arrays \<open>rfft_to_fft\<close> returns.
\<close>

record regression_results =
  params :: "real list"
  bse :: "real list"

record lm_seg_fit =
  seg_params :: "real list"
  seg_brk :: real
  seg_brk_err :: real
  seg_slopes :: "real list"
  seg_slope_errs :: "real list"
  seg_fit :: regression_results

record ('a, 'b) power_spectrum =
  data :: "real matrix"
  weighted_data :: "real matrix"
  cdelt0 :: "real option"
  beam_attr :: "'b option"
  region_distance :: "real option"
  ps2D_attr :: "'a entry matrix attr"
  freqs_attr :: "real list attr"
  ps1D_attr :: "real list attr"
  ps1D_stddev_attr :: "real list attr"
  stddev_flag_attr :: "bool attr"
  low_cut :: "real attr"
  high_cut :: "real attr"
  brk_attr :: "real attr"
  brk_err_attr :: "real attr"
  slope_attr :: "pyval attr"
  slope_err_attr :: "pyval attr"
  fit :: "regression_results attr"
  warnings :: "warning list"

subsection \<open>PowerSpectrum.__init__ (pspec.py, lines 34-59)\<close>

text \<open>
  \<open>input_data_header\<close> belongs to the statistic base class, which is not among the
  sources: it is a parameter that yields the image array and the pixel scale of the
  header, when there is one. Line 48 indexes the weights by a mask of the data's shape.
  No other attribute is assigned by the constructor.
\<close>

definition PowerSpectrum_init ::
  "('i \<Rightarrow> 'h option \<Rightarrow> error + npfloat matrix \<times> real option)
     \<Rightarrow> 'i \<Rightarrow> 'h option \<Rightarrow> npfloat matrix option \<Rightarrow> real option \<Rightarrow> 'b option
     \<Rightarrow> error + ('a, 'b) power_spectrum" where
  "PowerSpectrum_init input_data_header img header weights distance beam =
     ebind (input_data_header img header) (\<lambda>(raw, cd).
     let d = map (map nan_to_zero) raw in
     ebind (case weights of
              None \<Rightarrow> Inr (np_ones (map length d))
            | Some w \<Rightarrow>
                if map length w \<noteq> map length d then Inl IndexError
                else Inr (map (map nan_to_zero) w)) (\<lambda>w.
     ebind (np_multiply d w) (\<lambda>wd.
     Inr \<lparr> data = d, weighted_data = wd, cdelt0 = cd, beam_attr = beam,
           region_distance = distance,
           ps2D_attr = Absent, freqs_attr = Absent, ps1D_attr = Absent, ps1D_stddev_attr = PyNone,
           stddev_flag_attr = Absent, low_cut = Absent, high_cut = Absent,
           brk_attr = Absent, brk_err_attr = Absent, slope_attr = Absent, slope_err_attr = Absent,
           fit = Absent, warnings = [] \<rparr>)))"

subsection \<open>compute_pspec (pspec.py, lines 61-82)\<close>

text \<open>
  \<open>rfft_to_fft\<close>, \<open>apodizing_kernel\<close> (a method of the base class, given the data and
  \<open>alpha\<close>) and the beam's \<open>as_kernel\<close> are parameters. \<open>hasattr(self, '_beam')\<close> holds
  when the constructor was given a beam.
\<close>

record ('a, 'b) fft_lib =
  rfft_to_fft :: "real matrix \<Rightarrow> 'a matrix"
  apodizing_kernel :: "real matrix \<Rightarrow> real \<Rightarrow> error + real matrix"
  as_kernel :: "'b \<Rightarrow> real \<Rightarrow> nat \<Rightarrow> nat \<Rightarrow> error + real matrix"

text \<open>Lines 66-70: the array that is transformed.\<close>

definition fft_input ::
  "('a, 'b) fft_lib \<Rightarrow> bool \<Rightarrow> real \<Rightarrow> ('a, 'b) power_spectrum \<Rightarrow> error + real matrix" where
  "fft_input lib apodize alpha s =
     (if apodize then
        ebind (apodizing_kernel lib (data s) alpha) (\<lambda>apod_kernel.
        np_multiply (weighted_data s) apod_kernel)
      else Inr (weighted_data s))"

text \<open>Lines 74-78: the transform of the beam kernel.\<close>

definition beam_kernel ::
  "('a, 'b) fft_lib \<Rightarrow> 'b \<Rightarrow> ('a, 'b) power_spectrum \<Rightarrow> error + real matrix" where
  "beam_kernel lib b s =
     (case cdelt0 s of
        None \<Rightarrow> Inl AttributeError
      | Some cd \<Rightarrow> as_kernel lib b cd (fst (shape (data s))) (snd (shape (data s))))"

definition compute_pspec ::
  "('a::field, 'b) fft_lib \<Rightarrow> bool \<Rightarrow> bool \<Rightarrow> real \<Rightarrow> ('a, 'b) power_spectrum
     \<Rightarrow> error + ('a, 'b) power_spectrum" where
  "compute_pspec lib beam_correct apodize alpha s =
     ebind (fft_input lib apodize alpha s) (\<lambda>w.
     let fft = fftshift (rfft_to_fft lib w) in
     case (if beam_correct then beam_attr s else None) of
       Some b \<Rightarrow>
         ebind (beam_kernel lib b s) (\<lambda>beam_kern.
         let beam_fft = fftshift (rfft_to_fft lib beam_kern) in
         ebind (np_true_divide fft beam_fft) (\<lambda>q.
         Inr (s\<lparr>ps2D_attr := Val (map (map entry_power2) q)\<rparr>)))
     | None \<Rightarrow> Inr (s\<lparr>ps2D_attr := Val (finite_array (np_power2 fft))\<rparr>))"

subsection \<open>The accessor ps1D_stddev (base_pspec2.py, lines 33-42)\<close>

text \<open>
  The result is what the accessor emits as warnings and what it returns. Line 39 is an
  expression statement: it builds an instance of the exception class \<open>Warning\<close> and drops
  it, so neither branch of the test emits or raises anything.
\<close>

definition ps1D_stddev ::
  "('a, 'b) power_spectrum \<Rightarrow> error + warning list \<times> real list attr" where
  "ps1D_stddev s =
     ebind (attr_get (stddev_flag_attr s)) (\<lambda>flag.
     let emitted = (if flag \<noteq> Val True then [] else []) in
     ebind (attr_get (ps1D_stddev_attr s)) (\<lambda>v.
     Inr (emitted, v)))"

subsection \<open>compute_radial_pspec (base_pspec2.py, lines 55-83)\<close>

text \<open>
  The binning engine \<open>pspec\<close> (psds.py) is a parameter: it is given the 2D spectrum,
  \<open>return_stddev\<close>, \<open>logspacing\<close> when the caller passes it (the second call does not)
  and \<open>max_bin\<close>, and returns two arrays, with a third when it computed the deviations.
  Unpacking a tuple of the wrong length raises \<open>ValueError\<close>. The extra keyword arguments
  are not modelled. Line 83 attaches the unit to the frequencies.
\<close>

definition compute_radial_pspec ::
  "('a entry matrix \<Rightarrow> bool \<Rightarrow> bool option \<Rightarrow> real option
      \<Rightarrow> error + real list \<times> real list \<times> real list option)
     \<Rightarrow> bool \<Rightarrow> bool \<Rightarrow> real option \<Rightarrow> ('a, 'b) power_spectrum
     \<Rightarrow> error + ('a, 'b) power_spectrum" where
  "compute_radial_pspec pspec return_stddev logspacing max_bin s =
     (if return_stddev then
        ebind (attr_value (ps2D_attr s)) (\<lambda>p2.
        ebind (pspec p2 return_stddev (Some logspacing) max_bin) (\<lambda>(f, p, sd).
        case sd of
          None \<Rightarrow> Inl ValueError
        | Some d \<Rightarrow>
            Inr (s\<lparr>freqs_attr := Val f, ps1D_attr := Val p, ps1D_stddev_attr := Val d,
                   stddev_flag_attr := Val True\<rparr>)))
      else
        ebind (attr_value (ps2D_attr s)) (\<lambda>p2.
        ebind (pspec p2 return_stddev None max_bin) (\<lambda>(f, p, sd).
        case sd of
          Some d \<Rightarrow> Inl ValueError
        | None \<Rightarrow>
            Inr (s\<lparr>freqs_attr := Val f, ps1D_attr := Val p,
                   stddev_flag_attr := Val False\<rparr>))))"

subsection \<open>fit_pspec (base_pspec2.py, lines 85-188)\<close>

text \<open>
  Parameters: \<open>_to_pixel_freq\<close> (a method of the base class; it yields the value in
  inverse pixels), \<open>clip_func\<close> (fitting_utils.py), \<open>Lm_Seg\<close> with its \<open>fit_model\<close>
  (lm_seg.py) and the statsmodels regression \<open>OLS(y, add_constant(x), missing='drop').fit()\<close>.
  A cutoff and a break are stored by their value in inverse pixels.
\<close>

record fit_lib =
  to_pixel_freq :: "arg \<Rightarrow> error + real"
  clip_func :: "real list \<Rightarrow> real \<Rightarrow> real \<Rightarrow> bool list"
  lm_seg :: "real list \<Rightarrow> real list \<Rightarrow> real \<Rightarrow> bool \<Rightarrow> error + lm_seg_fit"
  ols :: "real list \<Rightarrow> real list \<Rightarrow> error + regression_results"

text \<open>Lines 117-127: the two cutoffs.\<close>

definition fit_limits ::
  "fit_lib \<Rightarrow> arg option \<Rightarrow> arg option \<Rightarrow> ('a, 'b) power_spectrum \<Rightarrow> error + real \<times> real" where
  "fit_limits lib low high s =
     ebind (case low of
              None \<Rightarrow>
                ebind (attr_value (ps2D_attr s)) (\<lambda>p2.
                np_divide 1 (0.5 * real (max (fst (shape p2)) (snd (shape p2)))))
            | Some q \<Rightarrow> to_pixel_freq lib q) (\<lambda>lo.
     ebind (case high of
              None \<Rightarrow>
                ebind (attr_value (freqs_attr s)) (\<lambda>f.
                if f = [] then Inl ValueError else Inr (array_max f + 1))
            | Some q \<Rightarrow> to_pixel_freq lib q) (\<lambda>hi.
     Inr (lo, hi)))"

text \<open>Lines 129-132: the data of the fit.\<close>

definition fit_data ::
  "fit_lib \<Rightarrow> ('a, 'b) power_spectrum \<Rightarrow> real \<Rightarrow> real \<Rightarrow> error + real list \<times> real list" where
  "fit_data lib s lo hi =
     ebind (attr_value (freqs_attr s)) (\<lambda>f.
     ebind (mask_select f (clip_func lib f lo hi)) (\<lambda>fsel.
     ebind (np_log10 fsel) (\<lambda>x.
     ebind (attr_value (ps1D_attr s)) (\<lambda>p.
     ebind (mask_select p (clip_func lib f lo hi)) (\<lambda>psel.
     ebind (np_log10 psel) (\<lambda>y.
     Inr (x, y)))))))"

text \<open>Lines 136-143: the break guess in log space.\<close>

definition break_guess :: "fit_lib \<Rightarrow> arg \<Rightarrow> bool \<Rightarrow> error + real" where
  "break_guess lib b log_break =
     (if \<not> log_break then
        ebind (to_pixel_freq lib b) (\<lambda>v. if v \<le> 0 then Inl NonFinite else Inr (log 10 v))
      else
        (case b of
           Quantity v u \<Rightarrow> if u = DimensionlessUnscaled then Inr v else Inl AssertionError
         | Plain v \<Rightarrow> Inr v))"

text \<open>Lines 134-178: the fit with a break, when a guess is given.\<close>

definition fit_break ::
  "fit_lib \<Rightarrow> arg option \<Rightarrow> bool \<Rightarrow> int \<Rightarrow> bool \<Rightarrow> real list \<Rightarrow> real list
     \<Rightarrow> ('a, 'b) power_spectrum \<Rightarrow> error + real list \<times> real list \<times> ('a, 'b) power_spectrum" where
  "fit_break lib brk log_break min_fits_pts verbose x y s =
     (case brk of
        Some b \<Rightarrow>
          ebind (break_guess lib b log_break) (\<lambda>b0.
          ebind (lm_seg lib x y b0 verbose) (\<lambda>brk_fit.
          if length (seg_params brk_fit) = 5 then
            if int (length (filter (\<lambda>v. v < seg_brk brk_fit) x)) < min_fits_pts then
              Inr (x, y, s\<lparr>warnings := warnings s @ [NotEnoughPoints], brk_attr := PyNone\<rparr>)
            else
              let good_pts = map (\<lambda>v. v < seg_brk brk_fit) x in
              ebind (mask_select x good_pts) (\<lambda>x'.
              ebind (mask_select y good_pts) (\<lambda>y'.
              let b1 = 10 powr seg_brk brk_fit in
              Inr (x', y',
                   s\<lparr>brk_attr := Val b1,
                     brk_err_attr := Val (ln 10 * b1 * seg_brk_err brk_fit),
                     slope_attr := Val (Array (seg_slopes brk_fit)),
                     slope_err_attr := Val (Array (seg_slope_errs brk_fit)),
                     fit := Val (seg_fit brk_fit)\<rparr>)))
          else
            Inr (x, y, s\<lparr>brk_attr := PyNone, warnings := warnings s @ [BreakFitFailed]\<rparr>)))
      | None \<Rightarrow> Inr (x, y, s\<lparr>brk_attr := PyNone, brk_err_attr := PyNone\<rparr>))"

text \<open>Lines 180-188: the ordinary fit, when no break is kept.\<close>

definition fit_ols ::
  "fit_lib \<Rightarrow> real list \<Rightarrow> real list \<Rightarrow> ('a, 'b) power_spectrum
     \<Rightarrow> error + ('a, 'b) power_spectrum" where
  "fit_ols lib x y s =
     ebind (attr_get (brk_attr s)) (\<lambda>b.
     if b = PyNone then
       ebind (ols lib x y) (\<lambda>res.
       ebind (index1 (params res)) (\<lambda>sl.
       ebind (index1 (bse res)) (\<lambda>se.
       Inr (s\<lparr>fit := Val res, slope_attr := Val (Scalar sl),
              slope_err_attr := Val (Scalar se)\<rparr>))))
     else Inr s)"

definition fit_pspec ::
  "fit_lib \<Rightarrow> arg option \<Rightarrow> bool \<Rightarrow> arg option \<Rightarrow> arg option \<Rightarrow> int \<Rightarrow> bool
     \<Rightarrow> ('a, 'b) power_spectrum \<Rightarrow> error + ('a, 'b) power_spectrum" where
  "fit_pspec lib brk log_break low high min_fits_pts verbose s =
     ebind (fit_limits lib low high s) (\<lambda>(lo, hi).
     let s1 = s\<lparr>low_cut := Val lo, high_cut := Val hi\<rparr> in
     ebind (fit_data lib s1 lo hi) (\<lambda>(x, y).
     ebind (fit_break lib brk log_break min_fits_pts verbose x y s1) (\<lambda>(x', y', s2).
     fit_ols lib x' y' s2)))"

subsection \<open>PSpec_Distance.distance_metric (pspec.py, lines 211-264)\<close>

text \<open>
  The verbose branch prints the two fit summaries and plots; it writes no attribute and
  is the parameter \<open>report\<close>.
\<close>

record ('a, 'b) pspec_distance =
  pspec1 :: "('a, 'b) power_spectrum"
  pspec2 :: "('a, 'b) power_spectrum"
  results :: "unit attr"
  distance :: "pyval attr"

definition distance_metric ::
  "(('a, 'b) pspec_distance \<Rightarrow> error + unit) \<Rightarrow> bool \<Rightarrow> ('a, 'b) pspec_distance
     \<Rightarrow> error + ('a, 'b) pspec_distance" where
  "distance_metric report verbose d =
     ebind (attr_value (slope_attr (pspec1 d))) (\<lambda>slope1.
     ebind (attr_value (slope_attr (pspec2 d))) (\<lambda>slope2.
     ebind (np_broadcast (-) slope1 slope2) (\<lambda>num.
     ebind (attr_value (slope_err_attr (pspec1 d))) (\<lambda>err1.
     ebind (attr_value (slope_err_attr (pspec2 d))) (\<lambda>err2.
     ebind (np_broadcast (+) (np_map (\<lambda>e. e\<^sup>2) err1) (np_map (\<lambda>e. e\<^sup>2) err2)) (\<lambda>sq.
     ebind (np_quotient num (np_map sqrt sq)) (\<lambda>q.
     let d' = d\<lparr>distance := Val (np_map abs q)\<rparr> in
     if verbose then ebind (report d') (\<lambda>u. Inr d') else Inr d')))))))"

section \<open>What the specification says of the missing helpers\<close>

subsection \<open>The restriction to the fit range\<close>

text \<open>
  Modelled from the spec: \<open>clip_func\<close> (fitting_utils.py) is not among the sources. The
  specification has \<open>fit_pspec\<close> restrict the (frequency, power) data to the range
  between the low and the high cutoff; \<open>clip_func\<close> is given the frequencies and the two
  cutoffs and returns the mask of that range. The specification does not say whether a
  frequency equal to a cutoff is kept, so each bound is included or not by a flag.
\<close>

definition within_bounds :: "bool \<Rightarrow> bool \<Rightarrow> real \<Rightarrow> real \<Rightarrow> real \<Rightarrow> bool" where
  "within_bounds incl_low incl_high lo hi a =
     ((if incl_low then lo \<le> a else lo < a) \<and> (if incl_high then a \<le> hi else a < hi))"

definition clip_func_spec :: "bool \<Rightarrow> bool \<Rightarrow> real list \<Rightarrow> real \<Rightarrow> real \<Rightarrow> bool list" where
  "clip_func_spec incl_low incl_high arr lo hi = map (within_bounds incl_low incl_high lo hi) arr"

subsection \<open>The 2D power spectrum\<close>

text \<open>
  The 2D discrete Fourier transform of an array of \<open>ny\<close> rows and \<open>nx\<close> columns, which is
  what numpy's FFT computes: the entry at \<open>(u, v)\<close> is the sum over \<open>(j, k)\<close> of
  \<open>m[j, k] * exp(-2 pi i (u j / ny + v k / nx))\<close>.
\<close>

definition dft2 :: "real matrix \<Rightarrow> complex matrix" where
  "dft2 m =
     (let ny = length m; nx = (case m of [] \<Rightarrow> 0 | r # _ \<Rightarrow> length r)
      in map (\<lambda>u. map (\<lambda>v. \<Sum>j<ny. \<Sum>k<nx. complex_of_real (m ! j ! k) *
                   cis (- (2 * pi * (real u * real j / real ny + real v * real k / real nx))))
                 [0..<nx]) [0..<ny])"

text \<open>
  Modelled from the spec: \<open>rfft_to_fft\<close> (rfft_to_fft.py) is not among the sources. The
  specification has the 2D power spectrum be the squared magnitude of the 2D Fourier
  transform, and \<open>compute_pspec\<close> squares what \<open>rfft_to_fft\<close> returns: \<open>rfft_to_fft\<close> is
  the magnitude of the transform, entry by entry, in the layout of the full transform.
\<close>

definition rfft_to_fft_spec :: "real matrix \<Rightarrow> real matrix" where
  "rfft_to_fft_spec m = map (map cmod) (dft2 m)"

text \<open>
  The specification of \<open>compute_pspec\<close>, written on the entries: the weighted data are
  multiplied by the apodizing window when there is one; the transform of the result is
  divided by the transform of the beam kernel when there is one; the power spectrum is
  the squared magnitude of that, with the zero frequency moved to the centre of each axis
  (to index \<open>n div 2\<close> of an axis of length \<open>n\<close>). Where the transform of the beam is zero
  the quotient is no number: \<open>nan\<close> when the dividend is zero as well, infinite otherwise.
\<close>

definition pointwise :: "('a \<Rightarrow> 'b \<Rightarrow> 'c) \<Rightarrow> 'a matrix \<Rightarrow> 'b matrix \<Rightarrow> 'c matrix" where
  "pointwise f A B =
     map (\<lambda>i. map (\<lambda>j. f (A ! i ! j) (B ! i ! j)) [0..<length (A ! i)]) [0..<length A]"

definition centred1 :: "'a list \<Rightarrow> 'a list" where
  "centred1 xs =
     map (\<lambda>i. xs ! ((i + (length xs - length xs div 2)) mod length xs)) [0..<length xs]"

definition centred :: "'a matrix \<Rightarrow> 'a matrix" where
  "centred m = centred1 (map centred1 m)"

definition quotient :: "complex \<Rightarrow> complex \<Rightarrow> complex entry" where
  "quotient t b = (if b = 0 then (if t = 0 then NotANumber else Infinity) else Number (t / b))"

fun squared_magnitude :: "complex entry \<Rightarrow> real entry" where
  "squared_magnitude (Number z) = Number ((cmod z)\<^sup>2)"
| "squared_magnitude Infinity = Infinity"
| "squared_magnitude NotANumber = NotANumber"

definition power_spectrum_spec ::
  "real matrix \<Rightarrow> real matrix option \<Rightarrow> real matrix option \<Rightarrow> real entry matrix" where
  "power_spectrum_spec weighted window beam_kern =
     (let tapered = (case window of None \<Rightarrow> weighted | Some k \<Rightarrow> pointwise (*) weighted k);
          transform = dft2 tapered;
          corrected = (case beam_kern of
                         None \<Rightarrow> map (map Number) transform
                       | Some b \<Rightarrow> pointwise quotient transform (dft2 b))
      in centred (map (map squared_magnitude) corrected))"

text \<open>An entry that is a non-negative real number.\<close>

fun nonneg_real :: "real entry \<Rightarrow> bool" where
  "nonneg_real (Number v) = (0 \<le> v)"
| "nonneg_real Infinity = False"
| "nonneg_real NotANumber = False"

section \<open>Sample objects\<close>

text \<open>Concrete collaborators, cubes and pipelines, on which the theorems below are run.\<close>

definition demo_lib :: "(string, unit) cube_lib" where
  "demo_lib = \<lparr>
     is_equivalent_pix = (\<lambda>u. u = ''pix''),
     quantity_to = (\<lambda>v u u'. if u = u' then Inr v else Inl UnitConversionError),
     downsample_axis = (\<lambda>c n. Inr c),
     spectral_smooth = (\<lambda>c w. Inr c),
     spectral_interpolate = (\<lambda>c g. Inr (c\<lparr>spectral_axis := g\<rparr>)) \<rparr>"

definition demo_cube :: "(string, unit) cube" where
  "demo_cube = \<lparr> spectral_axis = [0, 1, 2], spectral_unit = ''km/s'', channels = () \<rparr>"

definition demo_cube_desc :: "(string, unit) cube" where
  "demo_cube_desc =
     \<lparr> spectral_axis = [5, 4, 3, 2, 1, 0], spectral_unit = ''km/s'', channels = () \<rparr>"

definition demo_fit_lib :: fit_lib where
  "demo_fit_lib = \<lparr>
     to_pixel_freq = (\<lambda>a. case a of Quantity v PerPix \<Rightarrow> Inr v | _ \<Rightarrow> Inl UnitConversionError),
     clip_func = (\<lambda>arr lo hi. map (\<lambda>a. lo < a \<and> a < hi) arr),
     lm_seg = (\<lambda>x y b verbose. Inr \<lparr> seg_params = [2, - 1, - 2, b, 0], seg_brk = b,
                 seg_brk_err = 1 / 10, seg_slopes = [- 1, - 3], seg_slope_errs = [1 / 10, 1 / 5],
                 seg_fit = \<lparr> params = [2, - 1, - 2, b], bse = [1, 1, 1, 1] \<rparr> \<rparr>),
     ols = (\<lambda>x y. Inr \<lparr> params = [1, - 1], bse = [1 / 10, 1 / 20] \<rparr>) \<rparr>"

definition demo_spectrum :: "(real, unit) power_spectrum" where
  "demo_spectrum = \<lparr> data = [replicate 20 1], weighted_data = [replicate 20 1], cdelt0 = None,
     beam_attr = None, region_distance = None,
     ps2D_attr = Val [replicate 20 (Number 1)], freqs_attr = Val [1 / 10, 1, 10],
     ps1D_attr = Val [100, 10, 1], ps1D_stddev_attr = PyNone, stddev_flag_attr = Val False,
     low_cut = Absent, high_cut = Absent, brk_attr = Absent, brk_err_attr = Absent,
     slope_attr = Absent, slope_err_attr = Absent, fit = Absent, warnings = [] \<rparr>"

definition demo_fitted :: "(real, unit) power_spectrum" where
  "demo_fitted = demo_spectrum\<lparr>low_cut := Val (1 / 10), high_cut := Val 11,
     brk_attr := PyNone, brk_err_attr := PyNone,
     fit := Val \<lparr> params = [1, - 1], bse = [1 / 10, 1 / 20] \<rparr>,
     slope_attr := Val (Scalar (- 1)), slope_err_attr := Val (Scalar (1 / 20))\<rparr>"

definition demo_rejected :: "(real, unit) power_spectrum" where
  "demo_rejected = demo_spectrum\<lparr>low_cut := Val (1 / 10), high_cut := Val 11,
     warnings := [NotEnoughPoints], brk_attr := PyNone,
     fit := Val \<lparr> params = [1, - 1], bse = [1 / 10, 1 / 20] \<rparr>,
     slope_attr := Val (Scalar (- 1)), slope_err_attr := Val (Scalar (1 / 20))\<rparr>"

definition demo_accepted :: "(real, unit) power_spectrum" where
  "demo_accepted = demo_spectrum\<lparr>low_cut := Val (1 / 10), high_cut := Val 11,
     brk_attr := Val (10 powr (1 / 2)),
     brk_err_attr := Val (ln 10 * (10 powr (1 / 2)) * (1 / 10)),
     slope_attr := Val (Array [- 1, - 3]), slope_err_attr := Val (Array [1 / 10, 1 / 5]),
     fit := Val \<lparr> params = [2, - 1, - 2, 1 / 2], bse = [1, 1, 1, 1] \<rparr>\<rparr>"

definition demo_input_data_header ::
  "npfloat matrix \<Rightarrow> unit option \<Rightarrow> error + npfloat matrix \<times> real option" where
  "demo_input_data_header img header = Inr (img, None)"

definition demo_image :: "npfloat matrix" where
  "demo_image = [[Some 1, None], [Some 2, Some 3]]"

definition demo_fft_lib :: "(real, unit) fft_lib" where
  "demo_fft_lib = \<lparr>
     rfft_to_fft = map (map abs),
     apodizing_kernel = (\<lambda>d alpha. Inr (np_ones (map length d))),
     as_kernel = (\<lambda>b cd ny nx. Inr (replicate ny (replicate nx 1))) \<rparr>"

definition demo_pspec ::
  "real entry matrix \<Rightarrow> bool \<Rightarrow> bool option \<Rightarrow> real option
     \<Rightarrow> error + real list \<times> real list \<times> real list option" where
  "demo_pspec p2 return_stddev logspacing max_bin =
     Inr ([1 / 10, 1, 10], [100, 10, 1], if return_stddev then Some [1, 1, 1] else None)"

definition demo_constructed :: "(real, unit) power_spectrum" where
  "demo_constructed = \<lparr> data = [[1, 0], [2, 3]], weighted_data = [[1, 0], [2, 3]],
     cdelt0 = None, beam_attr = None, region_distance = None,
     ps2D_attr = Absent, freqs_attr = Absent, ps1D_attr = Absent, ps1D_stddev_attr = PyNone,
     stddev_flag_attr = Absent, low_cut = Absent, high_cut = Absent,
     brk_attr = Absent, brk_err_attr = Absent, slope_attr = Absent, slope_err_attr = Absent,
     fit = Absent, warnings = [] \<rparr>"

definition demo_distance :: "(real, unit) pspec_distance" where
  "demo_distance = \<lparr> pspec1 = demo_fitted,
     pspec2 = demo_fitted\<lparr>slope_attr := Val (Scalar (- 3)), slope_err_attr := Val (Scalar 0)\<rparr>,
     results = PyNone, distance = PyNone \<rparr>"

definition demo_distance_swapped :: "(real, unit) pspec_distance" where
  "demo_distance_swapped = \<lparr>
     pspec1 = demo_fitted\<lparr>slope_attr := Val (Scalar (- 3)), slope_err_attr := Val (Scalar 0)\<rparr>,
     pspec2 = demo_fitted, results = PyNone, distance = PyNone \<rparr>"

definition demo_dft_lib :: "(real, unit) fft_lib" where
  "demo_dft_lib = demo_fft_lib\<lparr>rfft_to_fft := rfft_to_fft_spec\<rparr>"

definition demo_beamed :: "(real, unit) power_spectrum" where
  "demo_beamed = demo_constructed\<lparr>data := [[1, 2], [3, 4]], weighted_data := [[1, 2], [3, 4]],
     cdelt0 := Some 1, beam_attr := Some ()\<rparr>"

definition demo_binned :: "(real, unit) power_spectrum" where
  "demo_binned = demo_constructed\<lparr>
     ps2D_attr := Val [[Number 9, Number 4], [Number 0, Number 1]],
     freqs_attr := Val [1 / 10, 1, 10], ps1D_attr := Val [100, 10, 1],
     stddev_flag_attr := Val False\<rparr>"

definition demo_binned_fitted :: "(real, unit) power_spectrum" where
  "demo_binned_fitted = demo_binned\<lparr>low_cut := Val 1, high_cut := Val 11,
     brk_attr := PyNone, brk_err_attr := PyNone,
     fit := Val \<lparr> params = [1, - 1], bse = [1 / 10, 1 / 20] \<rparr>,
     slope_attr := Val (Scalar (- 1)), slope_err_attr := Val (Scalar (1 / 20))\<rparr>"

section \<open>Properties of the spectral regridding\<close>

subsection \<open>Arrays\<close>

lemma ebind_Inr [simp]: "ebind (Inr x) f = f x"
  by (simp add: ebind_def)

lemma ebind_Inl [simp]: "ebind (Inl e) f = Inl e"
  by (simp add: ebind_def)

lemma ebind_eq_Inr: "ebind m f = Inr r \<longleftrightarrow> (\<exists>x. m = Inr x \<and> f x = Inr r)"
  by (cases m) simp_all

lemma length_linspace: "length (linspace a b n) = n"
  by (simp add: linspace_def)

lemma array_min_Min: "xs \<noteq> [] \<Longrightarrow> array_min xs = Min (set xs)"
  by (cases xs) (simp_all add: array_min_def Min.set_eq_fold [symmetric])

lemma array_max_Max: "xs \<noteq> [] \<Longrightarrow> array_max xs = Max (set xs)"
  by (cases xs) (simp_all add: array_max_def Max.set_eq_fold [symmetric])

lemma np_diff_nth: "Suc i < length xs \<Longrightarrow> np_diff xs ! i = xs ! Suc i - xs ! i"
  by (simp add: np_diff_def nth_tl)

lemma length_np_diff: "length (np_diff xs) = length xs - 1"
  by (simp add: np_diff_def)

lemma np_diff_linspace: "np_diff (linspace a b n) = replicate (n - 1) ((b - a) / real (n - 1))"
proof (rule nth_equalityI)
  show "length (np_diff (linspace a b n)) = length (replicate (n - 1) ((b - a) / real (n - 1)))"
    by (simp add: length_np_diff length_linspace)
next
  fix i assume "i < length (np_diff (linspace a b n))"
  then have i: "Suc i < n" by (simp add: length_np_diff length_linspace)
  then have "n \<noteq> 1" by simp
  have nth: "linspace a b n ! k = a + real k * ((b - a) / real (n - 1))" if "k < n" for k
    using that \<open>n \<noteq> 1\<close> by (simp add: linspace_def)
  have "np_diff (linspace a b n) ! i = linspace a b n ! Suc i - linspace a b n ! i"
    using i by (simp add: np_diff_nth length_linspace)
  also have "\<dots> = (b - a) / real (n - 1)"
    using i by (simp add: nth distrib_right add_divide_distrib del: of_nat_diff)
  finally show "np_diff (linspace a b n) ! i = replicate (n - 1) ((b - a) / real (n - 1)) ! i"
    using i by simp
qed

lemma np_diff_rev: "np_diff (rev xs) = map uminus (rev (np_diff xs))"
proof (rule nth_equalityI)
  show "length (np_diff (rev xs)) = length (map uminus (rev (np_diff xs)))"
    by (simp add: length_np_diff)
next
  fix i assume "i < length (np_diff (rev xs))"
  then have i: "Suc i < length xs" by (simp add: length_np_diff)
  have e: "Suc (length xs - 1 - Suc i) = length xs - Suc i" using i by simp
  from i show "np_diff (rev xs) ! i = map uminus (rev (np_diff xs)) ! i"
    by (simp add: np_diff_nth length_np_diff rev_nth e Suc_diff_Suc)
qed

lemma hd_linspace: "0 < n \<Longrightarrow> hd (linspace a b n) = a"
  by (simp add: linspace_def hd_map hd_upt)

lemma last_linspace: "2 \<le> n \<Longrightarrow> last (linspace a b n) = b"
  by (simp add: linspace_def last_map)

lemma sorted_linspace: "a < b \<Longrightarrow> sorted_wrt (<) (linspace a b n)"
  by (auto simp add: linspace_def sorted_wrt_map sorted_wrt_iff_nth_less
      divide_strict_right_mono)

lemma sorted_rev_linspace: "a < b \<Longrightarrow> sorted_wrt (>) (rev (linspace a b n))"
  using sorted_linspace [of a b n] by (simp add: sorted_wrt_rev)

subsection \<open>The checks on the channel width\<close>

lemma current_resolution_axis:
  assumes "current_resolution c = Inr cur"
  obtains a0 a1 rest where "spectral_axis c = a0 # a1 # rest" "cur = a1 - a0"
proof (cases "spectral_axis c")
  case Nil
  with assms show ?thesis by (simp add: current_resolution_def np_diff_def index0_def)
next
  case (Cons a0 xs)
  show ?thesis
  proof (cases xs)
    case Nil
    with Cons assms show ?thesis by (simp add: current_resolution_def np_diff_def index0_def)
  next
    case (Cons a1 rest)
    with \<open>spectral_axis c = a0 # xs\<close> assms that show ?thesis
      by (simp add: current_resolution_def np_diff_def index0_def)
  qed
qed

lemma axis_range:
  assumes "current_resolution c = Inr cur" "cur \<noteq> 0"
  shows "spectral_axis c \<noteq> []" "Min (set (spectral_axis c)) < Max (set (spectral_axis c))"
proof -
  from assms(1) obtain a0 a1 rest where ax: "spectral_axis c = a0 # a1 # rest" "cur = a1 - a0"
    by (rule current_resolution_axis)
  show "spectral_axis c \<noteq> []" using ax by simp
  have fin: "finite (set (spectral_axis c))" by simp
  have m0: "a0 \<in> set (spectral_axis c)" and m1: "a1 \<in> set (spectral_axis c)"
    using ax by simp_all
  have ne: "a0 \<noteq> a1" using ax assms(2) by simp
  have "Min (set (spectral_axis c)) \<le> min a0 a1"
    using fin m0 m1 by (simp add: Min_le)
  moreover have "max a0 a1 \<le> Max (set (spectral_axis c))"
    using fin m0 m1 by (simp add: Max_ge)
  moreover have "min a0 a1 < max a0 a1" using ne by (simp add: min_def max_def)
  ultimately show "Min (set (spectral_axis c)) < Max (set (spectral_axis c))" by linarith
qed

lemma regrid_unfold:
  assumes "current_resolution c = Inr cur" "cur \<noteq> 0" "target_resolution lib c v u cur = Inr t"
  shows "spectral_regrid_cube lib (SpectralCube c) (QuantityWidth v u) ''regrid'' =
          (if \<bar>t\<bar> = \<bar>cur\<bar> then Inr ([ChannelWidthMatch], c)
           else if \<bar>t\<bar> < \<bar>cur\<bar> then Inl ValueError
           else smooth_and_resample lib c t cur \<bar>t / cur\<bar>)"
proof -
  have eq1: "\<bar>t / cur\<bar> = 1 \<longleftrightarrow> \<bar>t\<bar> = \<bar>cur\<bar>"
    using assms(2) by (auto simp add: abs_divide field_simps)
  have lt1: "\<bar>t / cur\<bar> < 1 \<longleftrightarrow> \<bar>t\<bar> < \<bar>cur\<bar>"
    using assms(2) by (simp add: abs_divide field_simps)
  show ?thesis
    using assms eq1 lt1
    by (simp add: spectral_regrid_cube_def regrid_def np_divide_def Let_def)
qed

lemma demo_cur: "current_resolution demo_cube = Inr 1"
  by (simp add: current_resolution_def demo_cube_def np_diff_def index0_def)

lemma demo_tgt: "target_resolution demo_lib demo_cube v ''pix'' 1 = Inr v"
  by (simp add: target_resolution_def demo_lib_def)

lemma demo_desc_cur: "current_resolution demo_cube_desc = Inr (- 1)"
  by (simp add: current_resolution_def demo_cube_desc_def np_diff_def index0_def)

lemma demo_desc_tgt: "target_resolution demo_lib demo_cube_desc v ''pix'' (- 1) = Inr (- v)"
  by (simp add: target_resolution_def demo_lib_def)

lemma new_specaxis_demo: "new_specaxis demo_cube 2 1 = [0]"
  by (simp add: new_specaxis_def demo_cube_def linspace_def array_min_def array_max_def Let_def)

lemma new_specaxis_demo_desc: "new_specaxis demo_cube_desc 2 (- 1) = [5, 5 / 2, 0]"
  by (simp add: new_specaxis_def demo_cube_desc_def linspace_def array_min_def array_max_def
      Let_def upt_rec)

text \<open>
  C6. A call with \<open>method='regrid'\<close> and a channel width given as a quantity, on a cube
  with at least two channels of non-zero width, whose target width \<open>t\<close> (in the cube's
  spectral unit) could be computed: if the target is strictly narrower than the current
  channel width the call raises \<open>ValueError\<close>, and nothing has been smoothed or
  resampled; if the two widths are equal it warns and returns the cube it was given; only
  a strictly wider target reaches the smoothing and resampling stage.
\<close>

theorem regrid_width_check:
  assumes "current_resolution c = Inr cur" "cur \<noteq> 0" "target_resolution lib c v u cur = Inr t"
  shows "spectral_regrid_cube lib (SpectralCube c) (QuantityWidth v u) ''regrid'' =
          (if \<bar>t\<bar> < \<bar>cur\<bar> then Inl ValueError
           else if \<bar>t\<bar> = \<bar>cur\<bar> then Inr ([ChannelWidthMatch], c)
           else smooth_and_resample lib c t cur \<bar>t / cur\<bar>)"
  using regrid_unfold [OF assms] by simp

theorem regrid_width_check_witness:
  "spectral_regrid_cube demo_lib (SpectralCube demo_cube) (QuantityWidth (1 / 2) ''pix'') ''regrid''
     = Inl ValueError
   \<and> spectral_regrid_cube demo_lib (SpectralCube demo_cube) (QuantityWidth 1 ''pix'') ''regrid''
     = Inr ([ChannelWidthMatch], demo_cube)
   \<and> spectral_regrid_cube demo_lib (SpectralCube demo_cube) (QuantityWidth 2 ''pix'') ''regrid''
     = smooth_and_resample demo_lib demo_cube 2 1 2"
  using regrid_width_check [OF demo_cur _ demo_tgt, of "1 / 2"]
        regrid_width_check [OF demo_cur _ demo_tgt, of 1]
        regrid_width_check [OF demo_cur _ demo_tgt, of 2]
  by simp

subsection \<open>The new spectral axis\<close>

text \<open>
  C7, as stated, fails: a cube of three channels at 0, 1, 2 regridded to a width of two
  channels gets a new axis of \<open>floor(3 / 2) = 1\<close> sample, the minimum 0 alone, and the
  maximum 2 of the original axis is not an endpoint of it.
\<close>

theorem regrid_endpoints_counterexample:
  "spectral_regrid_cube demo_lib (SpectralCube demo_cube) (QuantityWidth 2 ''pix'') ''regrid''
     = Inr ([], \<lparr> spectral_axis = [0], spectral_unit = ''km/s'', channels = () \<rparr>)
   \<and> last [0::real] \<noteq> Max (set (spectral_axis demo_cube))"
  using regrid_unfold [OF demo_cur _ demo_tgt, of 2]
  by (simp add: smooth_and_resample_def new_specaxis_demo)
     (simp add: demo_lib_def demo_cube_def)

text \<open>
  C7, amended. For a valid regrid call with a strictly wider target, the cube is smoothed
  and then interpolated onto the grid \<open>g\<close>, where: \<open>g\<close> has exactly
  \<open>floor(count / ratio)\<close> samples, \<open>ratio\<close> being the absolute ratio of the target to the
  current channel width; consecutive samples of \<open>g\<close> differ by one constant step, negative
  when the input axis descends (its first difference is negative) and positive otherwise,
  so \<open>g\<close> runs in the direction of the input axis; and, when \<open>g\<close> has at least two
  samples, its first and last samples are the minimum and the maximum of the original
  axis (the maximum first on a descending axis).
\<close>

theorem regrid_specaxis:
  assumes "current_resolution c = Inr cur" "cur \<noteq> 0"
    and "target_resolution lib c v u cur = Inr t" "\<bar>cur\<bar> < \<bar>t\<bar>"
  shows "let ratio = \<bar>t / cur\<bar>;
             n = nat \<lfloor>real (length (spectral_axis c)) / ratio\<rfloor>;
             g = new_specaxis c ratio cur;
             lo = Min (set (spectral_axis c));
             hi = Max (set (spectral_axis c));
             step = (hi - lo) / real (n - 1)
         in spectral_regrid_cube lib (SpectralCube c) (QuantityWidth v u) ''regrid'' =
              ebind (spectral_smooth lib c (sqrt (t\<^sup>2 - cur\<^sup>2) / \<bar>cur\<bar> / fwhm_factor))
                (\<lambda>new_cube. ebind (spectral_interpolate lib new_cube g) (\<lambda>r. Inr ([], r)))
          \<and> length g = n
          \<and> np_diff g = replicate (n - 1) (if cur < 0 then - step else step)
          \<and> lo < hi
          \<and> (if cur < 0 then sorted_wrt (>) g else sorted_wrt (<) g)
          \<and> (2 \<le> n \<longrightarrow>
               hd g = (if cur < 0 then hi else lo) \<and> last g = (if cur < 0 then lo else hi))"
proof -
  define ratio where "ratio = \<bar>t / cur\<bar>"
  define n where "n = nat \<lfloor>real (length (spectral_axis c)) / ratio\<rfloor>"
  define lo where "lo = Min (set (spectral_axis c))"
  define hi where "hi = Max (set (spectral_axis c))"
  define g where "g = new_specaxis c ratio cur"
  have ne: "spectral_axis c \<noteq> []" and lohi: "lo < hi"
    using axis_range [OF assms(1,2)] by (simp_all add: lo_def hi_def)
  have g: "g = (if cur < 0 then rev (linspace lo hi n) else linspace lo hi n)"
    using ne by (simp add: g_def new_specaxis_def Let_def n_def lo_def hi_def
        array_min_Min array_max_Max)
  have run: "spectral_regrid_cube lib (SpectralCube c) (QuantityWidth v u) ''regrid'' =
      ebind (spectral_smooth lib c (sqrt (t\<^sup>2 - cur\<^sup>2) / \<bar>cur\<bar> / fwhm_factor))
        (\<lambda>new_cube. ebind (spectral_interpolate lib new_cube g) (\<lambda>r. Inr ([], r)))"
    using regrid_unfold [OF assms(1,2,3)] assms(4)
    by (simp add: smooth_and_resample_def Let_def g_def ratio_def)
  have len: "length g = n" by (simp add: g length_linspace)
  have dif: "np_diff g = replicate (n - 1)
      (if cur < 0 then - ((hi - lo) / real (n - 1)) else (hi - lo) / real (n - 1))"
    by (simp add: g np_diff_rev np_diff_linspace)
  have srt: "if cur < 0 then sorted_wrt (>) g else sorted_wrt (<) g"
    using lohi by (simp add: g sorted_linspace sorted_rev_linspace)
  have ends: "hd g = (if cur < 0 then hi else lo) \<and> last g = (if cur < 0 then lo else hi)"
    if "2 \<le> n"
  proof -
    have "linspace lo hi n \<noteq> []" using that length_linspace [of lo hi n] by auto
    then show ?thesis
      using that by (simp add: g hd_rev last_rev hd_linspace last_linspace)
  qed
  show ?thesis
    unfolding Let_def
    using run len dif lohi srt ends
    unfolding g_def n_def ratio_def lo_def hi_def by blast
qed

theorem regrid_specaxis_witness:
  "new_specaxis demo_cube_desc 2 (- 1) = [5, 5 / 2, 0]
   \<and> length (new_specaxis demo_cube_desc 2 (- 1)) = 3
   \<and> np_diff (new_specaxis demo_cube_desc 2 (- 1)) = [- (5 / 2), - (5 / 2)]
   \<and> sorted_wrt (>) (new_specaxis demo_cube_desc 2 (- 1))
   \<and> hd (new_specaxis demo_cube_desc 2 (- 1)) = 5
   \<and> last (new_specaxis demo_cube_desc 2 (- 1)) = 0"
proof -
  have ax: "spectral_axis demo_cube_desc = [5, 4, 3, 2, 1, 0]"
    by (simp add: demo_cube_desc_def)
  show ?thesis
    using regrid_specaxis [OF demo_desc_cur _ demo_desc_tgt, of 2]
    by (simp add: Let_def new_specaxis_demo_desc ax np_diff_def)
qed

section \<open>Properties of the fit\<close>

subsection \<open>The stages of fit_pspec\<close>

lemma length_mask_select:
  assumes "mask_select xs keep = Inr r"
  shows "length r = length (filter id keep)"
proof -
  have len: "length xs = length keep" and r: "r = map fst (filter snd (zip xs keep))"
    using assms by (auto simp add: mask_select_def split: if_splits)
  have "length (filter snd (zip xs keep)) = length (filter id keep)"
    using len by (induction xs keep rule: list_induct2) simp_all
  then show ?thesis by (simp add: r)
qed

lemma np_log10_length: "np_log10 xs = Inr r \<Longrightarrow> length r = length xs"
  by (auto simp add: np_log10_def split: if_splits)

lemma fit_data_length:
  assumes "fit_data lib s lo hi = Inr (x, y)"
  shows "length x = length y"
proof -
  from assms obtain f fsel p psel where
    "mask_select f (clip_func lib f lo hi) = Inr fsel" "np_log10 fsel = Inr x"
    "mask_select p (clip_func lib f lo hi) = Inr psel" "np_log10 psel = Inr y"
    by (auto simp add: fit_data_def ebind_eq_Inr)
  then show ?thesis
    by (simp add: np_log10_length length_mask_select)
qed

lemma fit_pspec_stages:
  assumes "fit_limits lib low high s = Inr (lo, hi)"
    and "fit_data lib (s\<lparr>low_cut := Val lo, high_cut := Val hi\<rparr>) lo hi = Inr (x, y)"
  shows "fit_pspec lib brk log_break low high min_fits_pts verbose s =
           ebind (fit_break lib brk log_break min_fits_pts verbose x y
                    (s\<lparr>low_cut := Val lo, high_cut := Val hi\<rparr>))
                 (\<lambda>(x', y', s2). fit_ols lib x' y' s2)"
  using assms by (simp add: fit_pspec_def Let_def)

lemma fit_break_rejected:
  assumes "break_guess lib b log_break = Inr b0"
    and "lm_seg lib x y b0 verbose = Inr brk_fit"
    and "length (seg_params brk_fit) = 5"
    and "int (length (filter (\<lambda>v. v < seg_brk brk_fit) x)) < min_fits_pts"
  shows "fit_break lib (Some b) log_break min_fits_pts verbose x y s =
           Inr (x, y, s\<lparr>warnings := warnings s @ [NotEnoughPoints], brk_attr := PyNone\<rparr>)"
  using assms by (simp add: fit_break_def)

lemma fit_break_accepted:
  assumes "break_guess lib b log_break = Inr b0"
    and "lm_seg lib x y b0 verbose = Inr brk_fit"
    and "length (seg_params brk_fit) = 5"
    and "\<not> int (length (filter (\<lambda>v. v < seg_brk brk_fit) x)) < min_fits_pts"
    and "length x = length y"
  shows "fit_break lib (Some b) log_break min_fits_pts verbose x y s =
           Inr (map fst (filter snd (zip x (map (\<lambda>v. v < seg_brk brk_fit) x))),
                map fst (filter snd (zip y (map (\<lambda>v. v < seg_brk brk_fit) x))),
                s\<lparr>brk_attr := Val (10 powr seg_brk brk_fit),
                  brk_err_attr := Val (ln 10 * (10 powr seg_brk brk_fit) * seg_brk_err brk_fit),
                  slope_attr := Val (Array (seg_slopes brk_fit)),
                  slope_err_attr := Val (Array (seg_slope_errs brk_fit)),
                  fit := Val (seg_fit brk_fit)\<rparr>)"
  using assms by (simp add: fit_break_def mask_select_def Let_def)

lemma fit_break_none:
  "fit_break lib None log_break min_fits_pts verbose x y s =
     Inr (x, y, s\<lparr>brk_attr := PyNone, brk_err_attr := PyNone\<rparr>)"
  by (simp add: fit_break_def)

lemma fit_ols_none:
  assumes "brk_attr s = PyNone" "ols lib x y = Inr res"
    and "index1 (params res) = Inr sl" "index1 (bse res) = Inr se"
  shows "fit_ols lib x y s =
           Inr (s\<lparr>fit := Val res, slope_attr := Val (Scalar sl), slope_err_attr := Val (Scalar se)\<rparr>)"
  using assms by (simp add: fit_ols_def attr_get_def)

lemma fit_ols_val: "brk_attr s = Val v \<Longrightarrow> fit_ols lib x y s = Inr s"
  by (simp add: fit_ols_def attr_get_def)

lemma fit_ols_frame:
  assumes "fit_ols lib x y s = Inr t"
  shows "brk_attr t = brk_attr s" "brk_err_attr t = brk_err_attr s" "warnings t = warnings s"
    "low_cut t = low_cut s" "high_cut t = high_cut s"
  using assms
  by (auto simp add: fit_ols_def ebind_eq_Inr split: if_splits)

lemma demo_limits: "fit_limits demo_fit_lib None None demo_spectrum = Inr (1 / 10, 11)"
  by (simp add: fit_limits_def demo_spectrum_def attr_value_def shape_def np_divide_def
      array_max_def)

lemma demo_data:
  "fit_data demo_fit_lib (demo_spectrum\<lparr>low_cut := Val (1 / 10), high_cut := Val 11\<rparr>) (1 / 10) 11
     = Inr ([0, 1], [1, 0])"
  by (simp add: fit_data_def demo_spectrum_def demo_fit_lib_def attr_value_def
      mask_select_def np_log10_def)

lemma demo_guess: "break_guess demo_fit_lib (Plain v) True = Inr v"
  by (simp add: break_guess_def)

lemma demo_seg:
  "lm_seg demo_fit_lib x y b verbose = Inr \<lparr> seg_params = [2, - 1, - 2, b, 0], seg_brk = b,
     seg_brk_err = 1 / 10, seg_slopes = [- 1, - 3], seg_slope_errs = [1 / 10, 1 / 5],
     seg_fit = \<lparr> params = [2, - 1, - 2, b], bse = [1, 1, 1, 1] \<rparr> \<rparr>"
  by (simp add: demo_fit_lib_def)

lemma demo_ols: "ols demo_fit_lib x y = Inr \<lparr> params = [1, - 1], bse = [1 / 10, 1 / 20] \<rparr>"
  by (simp add: demo_fit_lib_def)

lemma fit_break_frame:
  assumes "fit_break lib brk log_break min_fits_pts verbose x y s = Inr (x', y', t)"
  shows "low_cut t = low_cut s \<and> high_cut t = high_cut s"
proof (cases brk)
  case None
  with assms show ?thesis by (auto simp add: fit_break_none)
next
  case (Some b)
  with assms obtain b0 brk_fit where
    g: "break_guess lib b log_break = Inr b0" and l: "lm_seg lib x y b0 verbose = Inr brk_fit"
    by (auto simp add: fit_break_def ebind_eq_Inr)
  show ?thesis
  proof (cases "length (seg_params brk_fit) = 5")
    case False
    from assms Some g l False show ?thesis by (simp add: fit_break_def, auto)
  next
    case five: True
    show ?thesis
    proof (cases "int (length (filter (\<lambda>v. v < seg_brk brk_fit) x)) < min_fits_pts")
      case True
      from assms show ?thesis
        unfolding Some fit_break_rejected [OF g l five True] by auto
    next
      case False
      from assms have "t = s\<lparr>brk_attr := Val (10 powr seg_brk brk_fit),
                  brk_err_attr := Val (ln 10 * (10 powr seg_brk brk_fit) * seg_brk_err brk_fit),
                  slope_attr := Val (Array (seg_slopes brk_fit)),
                  slope_err_attr := Val (Array (seg_slope_errs brk_fit)),
                  fit := Val (seg_fit brk_fit)\<rparr>"
        using Some g l five False
        by (simp add: fit_break_def Let_def ebind_eq_Inr)
      then show ?thesis by simp
    qed
  qed
qed

lemma fit_limits_default:
  assumes "fit_limits lib None None s = Inr (lo, hi)"
  obtains p2 f where "ps2D_attr s = Val p2" "freqs_attr s = Val f" "f \<noteq> []"
    "lo = 1 / (0.5 * real (max (fst (shape p2)) (snd (shape p2))))"
    "hi = Max (set f) + 1"
proof -
  from assms obtain p2 f where
    p2: "attr_value (ps2D_attr s) = Inr p2"
    and lo: "np_divide 1 (0.5 * real (max (fst (shape p2)) (snd (shape p2)))) = Inr lo"
    and f: "attr_value (freqs_attr s) = Inr f"
    and hi: "(if f = [] then Inl ValueError else Inr (array_max f + 1)) = Inr hi"
    by (auto simp add: fit_limits_def ebind_eq_Inr)
  have 1: "ps2D_attr s = Val p2" using p2 by (simp add: attr_value_def split: attr.splits)
  have 2: "freqs_attr s = Val f" using f by (simp add: attr_value_def split: attr.splits)
  have 3: "f \<noteq> []" using hi by (auto split: if_splits)
  have 4: "lo = 1 / (0.5 * real (max (fst (shape p2)) (snd (shape p2))))"
    using lo by (auto simp add: np_divide_def split: if_splits)
  have 5: "hi = Max (set f) + 1" using hi 3 by (auto simp add: array_max_Max split: if_splits)
  from 1 2 3 4 5 show ?thesis by (rule that)
qed

lemma fit_data_explicit:
  assumes "fit_data lib s lo hi = Inr (x, y)"
  obtains f p where "freqs_attr s = Val f" "ps1D_attr s = Val p"
    "x = map (log 10) (map fst (filter snd (zip f (clip_func lib f lo hi))))"
    "y = map (log 10) (map fst (filter snd (zip p (clip_func lib f lo hi))))"
proof -
  from assms obtain f fsel p psel where
    f: "attr_value (freqs_attr s) = Inr f"
    and fs: "mask_select f (clip_func lib f lo hi) = Inr fsel" and x: "np_log10 fsel = Inr x"
    and p: "attr_value (ps1D_attr s) = Inr p"
    and ps: "mask_select p (clip_func lib f lo hi) = Inr psel" and y: "np_log10 psel = Inr y"
    by (auto simp add: fit_data_def ebind_eq_Inr)
  have 1: "freqs_attr s = Val f" using f by (simp add: attr_value_def split: attr.splits)
  have 2: "ps1D_attr s = Val p" using p by (simp add: attr_value_def split: attr.splits)
  have 3: "x = map (log 10) (map fst (filter snd (zip f (clip_func lib f lo hi))))"
    using fs x by (auto simp add: mask_select_def np_log10_def split: if_splits)
  have 4: "y = map (log 10) (map fst (filter snd (zip p (clip_func lib f lo hi))))"
    using ps y by (auto simp add: mask_select_def np_log10_def split: if_splits)
  from 1 2 3 4 show ?thesis by (rule that)
qed

lemma demo_fit_run:
  "fit_pspec demo_fit_lib None log_break None None 10 False demo_spectrum = Inr demo_fitted"
  by (simp add: fit_pspec_stages [OF demo_limits demo_data] fit_break_none
      fit_ols_none [OF _ demo_ols] index1_def demo_fitted_def)

lemma demo_rejected_run:
  "fit_pspec demo_fit_lib (Some (Plain (1 / 2))) True None None 10 False demo_spectrum
     = Inr demo_rejected"
proof -
  have w: "warnings demo_spectrum = []" by (simp add: demo_spectrum_def)
  show ?thesis
    by (simp add: fit_pspec_stages [OF demo_limits demo_data]
        fit_break_rejected [OF demo_guess demo_seg] fit_ols_none [OF _ demo_ols]
        index1_def demo_rejected_def w)
qed

lemma demo_accepted_run:
  "fit_pspec demo_fit_lib (Some (Plain (1 / 2))) True None None 1 False demo_spectrum
     = Inr demo_accepted"
  by (simp add: fit_pspec_stages [OF demo_limits demo_data]
      fit_break_accepted [OF demo_guess demo_seg] fit_ols_val demo_accepted_def)

subsection \<open>A rejected break\<close>

text \<open>
  C1. A call with a break guess, in which the segmented fit has 5 parameters and fewer
  than \<open>min_fits_pts\<close> of the points \<open>x\<close> (the cutoff-restricted, log-transformed
  frequencies) lie strictly below the fitted break: the call warns that there are not
  enough points, leaves \<open>brk\<close> at \<open>None\<close>, and stores the slope and the slope error of
  the ordinary least-squares fit on \<open>x, y\<close>; the call without a break guess, on the same
  object with the same cutoffs, stores the same fit, slope and slope error. The
  regression is assumed to return a fit with two parameters; the call then returns.
\<close>

theorem break_rejected_falls_back:
  assumes "fit_limits lib low high s = Inr (lo, hi)"
    and "fit_data lib (s\<lparr>low_cut := Val lo, high_cut := Val hi\<rparr>) lo hi = Inr (x, y)"
    and "break_guess lib b log_break = Inr b0"
    and "lm_seg lib x y b0 verbose = Inr brk_fit"
    and "length (seg_params brk_fit) = 5"
    and "int (length (filter (\<lambda>v. v < seg_brk brk_fit) x)) < min_fits_pts"
    and "ols lib x y = Inr res"
    and "index1 (params res) = Inr sl" "index1 (bse res) = Inr se"
  shows "fit_pspec lib (Some b) log_break low high min_fits_pts verbose s =
           Inr (s\<lparr>low_cut := Val lo, high_cut := Val hi,
                  warnings := warnings s @ [NotEnoughPoints], brk_attr := PyNone,
                  fit := Val res, slope_attr := Val (Scalar sl),
                  slope_err_attr := Val (Scalar se)\<rparr>)
       \<and> fit_pspec lib None log_break low high min_fits_pts verbose s =
           Inr (s\<lparr>low_cut := Val lo, high_cut := Val hi,
                  brk_attr := PyNone, brk_err_attr := PyNone,
                  fit := Val res, slope_attr := Val (Scalar sl),
                  slope_err_attr := Val (Scalar se)\<rparr>)"
  using assms
  by (simp add: fit_pspec_stages fit_break_rejected fit_break_none fit_ols_none)

theorem break_rejected_falls_back_witness:
  "fit_pspec demo_fit_lib (Some (Plain (1 / 2))) True None None 10 False demo_spectrum =
     Inr (demo_spectrum\<lparr>low_cut := Val (1 / 10), high_cut := Val 11,
            warnings := [NotEnoughPoints], brk_attr := PyNone,
            fit := Val \<lparr> params = [1, - 1], bse = [1 / 10, 1 / 20] \<rparr>,
            slope_attr := Val (Scalar (- 1)), slope_err_attr := Val (Scalar (1 / 20))\<rparr>)
   \<and> fit_pspec demo_fit_lib None True None None 10 False demo_spectrum =
     Inr (demo_spectrum\<lparr>low_cut := Val (1 / 10), high_cut := Val 11,
            brk_attr := PyNone, brk_err_attr := PyNone,
            fit := Val \<lparr> params = [1, - 1], bse = [1 / 10, 1 / 20] \<rparr>,
            slope_attr := Val (Scalar (- 1)), slope_err_attr := Val (Scalar (1 / 20))\<rparr>)"
proof -
  have w: "warnings demo_spectrum = []" by (simp add: demo_spectrum_def)
  show ?thesis
    using break_rejected_falls_back [OF demo_limits demo_data demo_guess demo_seg _ _ demo_ols,
        where min_fits_pts = 10 and sl = "- 1" and se = "1 / 20"]
    by (simp add: index1_def w)
qed

text \<open>
  C9. When a call rejects the fitted break because fewer than \<open>min_fits_pts\<close> points lie
  below it, \<open>brk\<close> is \<open>None\<close> afterwards and \<open>brk_err\<close> is what it was before the call,
  absent if it was absent. On the same object and data, a call without a break guess
  leaves \<open>brk_err\<close> at \<open>None\<close>, and a call with the guess, whatever its
  \<open>min_fits_pts\<close>, gives \<open>brk_err\<close> a value exactly when it accepts the break.
\<close>

theorem rejected_break_keeps_brk_err:
  assumes "fit_limits lib low high s = Inr (lo, hi)"
    and "fit_data lib (s\<lparr>low_cut := Val lo, high_cut := Val hi\<rparr>) lo hi = Inr (x, y)"
    and "break_guess lib b log_break = Inr b0"
    and "lm_seg lib x y b0 verbose = Inr brk_fit"
    and "length (seg_params brk_fit) = 5"
    and "int (length (filter (\<lambda>v. v < seg_brk brk_fit) x)) < min_fits_pts"
    and "fit_pspec lib (Some b) log_break low high min_fits_pts verbose s = Inr s'"
  shows "brk_attr s' = PyNone \<and> brk_err_attr s' = brk_err_attr s
       \<and> (\<forall>t. fit_pspec lib None log_break low high min_fits_pts verbose s = Inr t
              \<longrightarrow> brk_err_attr t = PyNone)
       \<and> (\<forall>m t. fit_pspec lib (Some b) log_break low high m verbose s = Inr t
              \<longrightarrow> (if int (length (filter (\<lambda>v. v < seg_brk brk_fit) x)) < m
                   then brk_attr t = PyNone \<and> brk_err_attr t = brk_err_attr s
                   else brk_attr t = Val (10 powr seg_brk brk_fit)
                      \<and> brk_err_attr t =
                          Val (ln 10 * (10 powr seg_brk brk_fit) * seg_brk_err brk_fit)))"
proof -
  have len: "length x = length y" using assms(2) by (rule fit_data_length)
  have rej: "brk_attr t = PyNone \<and> brk_err_attr t = brk_err_attr s"
    if "fit_pspec lib (Some b) log_break low high m verbose s = Inr t"
      and "int (length (filter (\<lambda>v. v < seg_brk brk_fit) x)) < m" for m t
  proof -
    from that have
      "fit_ols lib x y (s\<lparr>low_cut := Val lo, high_cut := Val hi,
          warnings := warnings s @ [NotEnoughPoints], brk_attr := PyNone\<rparr>) = Inr t"
      by (simp add: fit_pspec_stages [OF assms(1,2)] fit_break_rejected [OF assms(3,4,5)])
    from fit_ols_frame(1,2) [OF this] show ?thesis by simp
  qed
  have acc: "brk_attr t = Val (10 powr seg_brk brk_fit)
      \<and> brk_err_attr t = Val (ln 10 * (10 powr seg_brk brk_fit) * seg_brk_err brk_fit)"
    if "fit_pspec lib (Some b) log_break low high m verbose s = Inr t"
      and "\<not> int (length (filter (\<lambda>v. v < seg_brk brk_fit) x)) < m" for m t
    using that(1)
    by (simp add: fit_pspec_stages [OF assms(1,2)]
        fit_break_accepted [OF assms(3,4,5) that(2) len] fit_ols_val) auto
  have non: "brk_err_attr t = PyNone"
    if "fit_pspec lib None log_break low high min_fits_pts verbose s = Inr t" for t
  proof -
    from that have
      "fit_ols lib x y (s\<lparr>low_cut := Val lo, high_cut := Val hi,
          brk_attr := PyNone, brk_err_attr := PyNone\<rparr>) = Inr t"
      by (simp add: fit_pspec_stages [OF assms(1,2)] fit_break_none)
    from fit_ols_frame(2) [OF this] show ?thesis by simp
  qed
  from rej [OF assms(7,6)] non rej acc show ?thesis by simp
qed

theorem rejected_break_keeps_brk_err_witness:
  "brk_attr demo_rejected = PyNone
   \<and> brk_err_attr demo_rejected = brk_err_attr demo_spectrum
   \<and> brk_err_attr demo_fitted = PyNone
   \<and> brk_attr demo_accepted = Val (10 powr (1 / 2))
   \<and> brk_err_attr demo_accepted = Val (ln 10 * (10 powr (1 / 2)) * (1 / 10))"
proof -
  note T = rejected_break_keeps_brk_err [OF demo_limits demo_data demo_guess demo_seg _ _
      demo_rejected_run, simplified]
  from T have A: "brk_attr demo_rejected = PyNone
      \<and> brk_err_attr demo_rejected = brk_err_attr demo_spectrum"
    by simp
  from T demo_fit_run have B: "brk_err_attr demo_fitted = PyNone"
    by blast
  from T demo_accepted_run have C: "brk_attr demo_accepted = Val (10 powr (1 / 2))
      \<and> brk_err_attr demo_accepted = Val (ln 10 * (10 powr (1 / 2)) * (1 / 10))"
    by (auto dest!: conjunct2 spec [of _ 1] spec [of _ demo_accepted])
  from A B C show ?thesis by simp
qed

subsection \<open>An accepted break\<close>

text \<open>
  C8. When the segmented fit has 5 parameters and at least \<open>min_fits_pts\<close> points lie
  below the fitted break, the call returns, the stored break is 10 raised to the fitted
  log-space break, and the stored break error is \<open>ln 10\<close> times that break times the
  log-space break error.
\<close>

theorem accepted_break_value:
  assumes "fit_limits lib low high s = Inr (lo, hi)"
    and "fit_data lib (s\<lparr>low_cut := Val lo, high_cut := Val hi\<rparr>) lo hi = Inr (x, y)"
    and "break_guess lib b log_break = Inr b0"
    and "lm_seg lib x y b0 verbose = Inr brk_fit"
    and "length (seg_params brk_fit) = 5"
    and "\<not> int (length (filter (\<lambda>v. v < seg_brk brk_fit) x)) < min_fits_pts"
  shows "\<exists>s'. fit_pspec lib (Some b) log_break low high min_fits_pts verbose s = Inr s'
           \<and> brk_attr s' = Val (10 powr seg_brk brk_fit)
           \<and> brk_err_attr s' = Val (ln 10 * (10 powr seg_brk brk_fit) * seg_brk_err brk_fit)"
proof -
  have len: "length x = length y" using assms(2) by (rule fit_data_length)
  show ?thesis
    by (simp add: fit_pspec_stages [OF assms(1,2)]
        fit_break_accepted [OF assms(3,4,5,6) len] fit_ols_val)
qed

theorem accepted_break_value_witness:
  "\<exists>s'. fit_pspec demo_fit_lib (Some (Plain (1 / 2))) True None None 1 False demo_spectrum = Inr s'
     \<and> brk_attr s' = Val (10 powr (1 / 2))
     \<and> brk_err_attr s' = Val (ln 10 * (10 powr (1 / 2)) * (1 / 10))"
  using accepted_break_value [OF demo_limits demo_data demo_guess demo_seg,
      where min_fits_pts = 1]
  by simp

section \<open>Properties of the pipeline object\<close>

subsection \<open>Frames of the constructor and of the first two stages\<close>

lemma init_fields:
  assumes "PowerSpectrum_init idh img header weights distance0 beam = Inr s"
  shows "beam_attr s = beam" "ps1D_stddev_attr s = PyNone" "stddev_flag_attr s = Absent"
  using assms
  by (auto simp add: PowerSpectrum_init_def ebind_eq_Inr Let_def)

lemma compute_pspec_frame:
  assumes "compute_pspec lib bc ap alpha s = Inr t"
  shows "ps1D_stddev_attr t = ps1D_stddev_attr s" "stddev_flag_attr t = stddev_flag_attr s"
  using assms
  by (auto simp add: compute_pspec_def ebind_eq_Inr Let_def split: option.splits)

lemma compute_radial_pspec_plain:
  assumes "compute_radial_pspec pspec False logspacing max_bin s = Inr t"
  shows "ps1D_stddev_attr t = ps1D_stddev_attr s" "stddev_flag_attr t = Val False"
  using assms
  by (auto simp add: compute_radial_pspec_def ebind_eq_Inr split: option.splits)

lemma demo_init:
  "PowerSpectrum_init demo_input_data_header demo_image None None None None
     = Inr demo_constructed"
  by (simp add: PowerSpectrum_init_def demo_input_data_header_def demo_image_def
      nan_to_zero_def np_ones_def np_multiply_def demo_constructed_def Let_def)

lemma demo_compute:
  "compute_pspec demo_fft_lib True False (3 / 10) demo_constructed
     = Inr (demo_constructed\<lparr>ps2D_attr := Val [[Number 9, Number 4], [Number 0, Number 1]]\<rparr>)"
  by (simp add: compute_pspec_def fft_input_def demo_constructed_def demo_fft_lib_def
      fftshift_def fftshift1_def np_power2_def finite_array_def)

lemma demo_radial:
  "compute_radial_pspec demo_pspec False False None
     (demo_constructed\<lparr>ps2D_attr := Val [[Number 9, Number 4], [Number 0, Number 1]]\<rparr>)
   = Inr (demo_constructed\<lparr>ps2D_attr := Val [[Number 9, Number 4], [Number 0, Number 1]],
        freqs_attr := Val [1 / 10, 1, 10], ps1D_attr := Val [100, 10, 1],
        stddev_flag_attr := Val False\<rparr>)"
  by (simp add: compute_radial_pspec_def attr_value_def demo_pspec_def)

subsection \<open>The standard deviation that was not computed\<close>

text \<open>
  C10. On a pipeline that was constructed, whose 2D spectrum was computed and whose
  radial profile was then computed with \<open>return_stddev=False\<close>, reading \<open>ps1D_stddev\<close>
  raises nothing, emits no warning and returns \<open>None\<close>: the field still holds the
  \<open>None\<close> that the constructor assigned.
\<close>

theorem ps1D_stddev_is_None:
  assumes "PowerSpectrum_init idh img header weights distance0 beam = Inr s0"
    and "compute_pspec lib beam_correct apodize alpha s0 = Inr s1"
    and "compute_radial_pspec pspec False logspacing max_bin s1 = Inr s2"
  shows "ps1D_stddev s2 = Inr ([], PyNone) \<and> ps1D_stddev_attr s2 = PyNone"
proof -
  have "ps1D_stddev_attr s2 = PyNone"
    using init_fields(2) [OF assms(1)] compute_pspec_frame(1) [OF assms(2)]
      compute_radial_pspec_plain(1) [OF assms(3)] by simp
  moreover have "stddev_flag_attr s2 = Val False"
    by (rule compute_radial_pspec_plain(2) [OF assms(3)])
  ultimately show ?thesis
    by (simp add: ps1D_stddev_def attr_get_def)
qed

theorem ps1D_stddev_is_None_witness:
  "ps1D_stddev (demo_constructed\<lparr>ps2D_attr := Val [[Number 9, Number 4], [Number 0, Number 1]],
        freqs_attr := Val [1 / 10, 1, 10], ps1D_attr := Val [100, 10, 1],
        stddev_flag_attr := Val False\<rparr>) = Inr ([], PyNone)"
  using ps1D_stddev_is_None [OF demo_init demo_compute demo_radial] by simp

subsection \<open>Beam correction without a beam\<close>

text \<open>
  C4. On a pipeline constructed without a beam, \<open>compute_pspec\<close> with
  \<open>beam_correct=True\<close> has the outcome of \<open>compute_pspec\<close> with \<open>beam_correct=False\<close>
  and the same apodization settings: the plain spectrum of the (optionally apodized)
  weighted data. The only exception it can raise is one of the apodization step, which
  the other call raises too; without apodization it returns.
\<close>

theorem no_beam_fallback:
  assumes "PowerSpectrum_init idh img header weights distance0 None = Inr s"
  shows "compute_pspec lib True apodize alpha s = compute_pspec lib False apodize alpha s
       \<and> compute_pspec lib True apodize alpha s =
           ebind (fft_input lib apodize alpha s) (\<lambda>w.
             Inr (s\<lparr>ps2D_attr :=
                    Val (finite_array (np_power2 (fftshift (rfft_to_fft lib w))))\<rparr>))
       \<and> compute_pspec lib True False alpha s =
           Inr (s\<lparr>ps2D_attr :=
                  Val (finite_array (np_power2 (fftshift (rfft_to_fft lib (weighted_data s)))))\<rparr>)"
  using init_fields(1) [OF assms]
  by (simp add: compute_pspec_def fft_input_def Let_def)

theorem no_beam_fallback_witness:
  "compute_pspec demo_fft_lib True True (3 / 10) demo_constructed
     = compute_pspec demo_fft_lib False True (3 / 10) demo_constructed
   \<and> compute_pspec demo_fft_lib True False (3 / 10) demo_constructed
     = Inr (demo_constructed\<lparr>ps2D_attr := Val [[Number 9, Number 4], [Number 0, Number 1]]\<rparr>)"
  using no_beam_fallback [OF demo_init, of demo_fft_lib True "3 / 10"]
    no_beam_fallback [OF demo_init, of demo_fft_lib False "3 / 10"]
  by (simp add: demo_compute)

section \<open>Properties of the distance\<close>

subsection \<open>Broadcasting and exchange of the operands\<close>

lemma map2_swap: "map2 f xs ys = map2 (\<lambda>a b. f b a) ys xs"
proof (induction xs arbitrary: ys)
  case Nil
  then show ?case by simp
next
  case (Cons x xs)
  then show ?case by (cases ys) simp_all
qed

lemma np_broadcast_swap: "np_broadcast f a b = np_broadcast (\<lambda>x y. f y x) b a"
proof (cases a)
  case (Scalar x)
  then show ?thesis by (cases b) simp_all
next
  case (Array xs)
  then show ?thesis by (cases b) (auto simp add: map2_swap [of f])
qed

lemma np_broadcast_post:
  "np_broadcast (\<lambda>x y. g (f x y)) a b = map_sum id (np_map g) (np_broadcast f a b)"
proof (cases a)
  case (Scalar x)
  then show ?thesis by (cases b) simp_all
next
  case (Array xs)
  then show ?thesis by (cases b) (auto simp add: case_prod_unfold)
qed

lemma hd_map_single: "length xs = Suc 0 \<Longrightarrow> hd (map f xs) = f (hd xs)"
  by (cases xs) simp_all

lemma np_broadcast_pre1:
  "np_broadcast f (np_map g a) b = np_broadcast (\<lambda>x y. f (g x) y) a b"
proof (cases a)
  case (Scalar x)
  then show ?thesis by (cases b) simp_all
next
  case (Array xs)
  then show ?thesis
    by (cases b) (auto simp add: hd_map_single zip_map1 comp_def case_prod_unfold)
qed

lemma np_map_np_map: "np_map f (np_map g a) = np_map (\<lambda>x. f (g x)) a"
  by (cases a) (simp_all add: comp_def)

lemma np_quotient_uminus:
  "np_quotient (np_map uminus n) den = map_sum id (np_map uminus) (np_quotient n den)"
proof -
  have "np_broadcast (/) (np_map uminus n) den = np_broadcast (\<lambda>x y. - (x / y)) n den"
    by (simp add: np_broadcast_pre1)
  also have "\<dots> = map_sum id (np_map uminus) (np_broadcast (/) n den)"
    by (rule np_broadcast_post)
  finally show ?thesis
    by (cases "np_broadcast (/) n den") (simp_all add: np_quotient_def)
qed

lemma distance_value_swap:
  "ebind (np_broadcast (-) s2 s1) (\<lambda>num.
     ebind (np_broadcast (+) (np_map (\<lambda>e. e\<^sup>2) e2) (np_map (\<lambda>e. e\<^sup>2) e1)) (\<lambda>sq.
     ebind (np_quotient num (np_map sqrt sq)) (\<lambda>q. Inr (Val (np_map abs q)))))
   = ebind (np_broadcast (-) s1 s2) (\<lambda>num.
     ebind (np_broadcast (+) (np_map (\<lambda>e. e\<^sup>2) e1) (np_map (\<lambda>e. e\<^sup>2) e2)) (\<lambda>sq.
     ebind (np_quotient num (np_map sqrt sq)) (\<lambda>q. Inr (Val (np_map abs q)))))"
proof -
  have num: "np_broadcast (-) s2 s1 = map_sum id (np_map uminus) (np_broadcast (-) s1 s2)"
    using np_broadcast_swap [of "(-)" s2 s1] np_broadcast_post [of uminus "(-)" s1 s2]
    by simp
  have sq: "np_broadcast (+) (np_map (\<lambda>e. e\<^sup>2) e2) (np_map (\<lambda>e. e\<^sup>2) e1)
      = np_broadcast (+) (np_map (\<lambda>e. e\<^sup>2) e1) (np_map (\<lambda>e. e\<^sup>2) e2)"
    using np_broadcast_swap [of "(+)" "np_map (\<lambda>e. e\<^sup>2) e2" "np_map (\<lambda>e. e\<^sup>2) e1"]
    by (simp add: add.commute)
  show ?thesis
  proof (cases "np_broadcast (-) s1 s2")
    case (Inl e)
    then show ?thesis by (simp add: num)
  next
    case (Inr n)
    show ?thesis
    proof (cases "np_broadcast (+) (np_map (\<lambda>e. e\<^sup>2) e1) (np_map (\<lambda>e. e\<^sup>2) e2)")
      case (Inl e)
      then show ?thesis by (simp add: num sq Inr)
    next
      case sqv: (Inr v)
      show ?thesis
        by (cases "np_quotient n (np_map sqrt v)")
          (simp_all add: num sq Inr sqv np_quotient_uminus np_map_np_map)
    qed
  qed
qed


lemma attr_value_Inl: "attr_value a = Inl e \<Longrightarrow> e = AttributeError"
  by (simp add: attr_value_def split: attr.splits)

lemma np_broadcast_minus_swap:
  "np_broadcast (-) s2 s1 = map_sum id (np_map uminus) (np_broadcast (-) s1 s2)"
  using np_broadcast_swap [of "(-)" s2 s1] np_broadcast_post [of uminus "(-)" s1 s2]
  by simp

lemma distance_metric_value:
  "map_sum id distance (distance_metric report False d) =
     ebind (attr_value (slope_attr (pspec1 d))) (\<lambda>s1.
     ebind (attr_value (slope_attr (pspec2 d))) (\<lambda>s2.
     ebind (np_broadcast (-) s1 s2) (\<lambda>num.
     ebind (attr_value (slope_err_attr (pspec1 d))) (\<lambda>e1.
     ebind (attr_value (slope_err_attr (pspec2 d))) (\<lambda>e2.
     ebind (np_broadcast (+) (np_map (\<lambda>e. e\<^sup>2) e1) (np_map (\<lambda>e. e\<^sup>2) e2)) (\<lambda>sq.
     ebind (np_quotient num (np_map sqrt sq)) (\<lambda>q.
     Inr (Val (np_map abs q)))))))))"
  by (simp add: distance_metric_def ebind_def Let_def split: sum.splits)

lemma distance_metric_distance:
  assumes "distance_metric report verbose d = Inr r"
  shows "map_sum id distance (distance_metric report False d) = Inr (distance r)"
  using assms
  by (auto simp add: distance_metric_def ebind_eq_Inr Let_def split: if_splits)

lemma distance_swap:
  "map_sum id distance (distance_metric report False (d\<lparr>pspec1 := A, pspec2 := B\<rparr>))
     = map_sum id distance (distance_metric report False (d\<lparr>pspec1 := B, pspec2 := A\<rparr>))"
proof -
  consider (s1) e where "attr_value (slope_attr A) = Inl e"
    | (s2) e where "attr_value (slope_attr B) = Inl e"
    | (ok) a b where "attr_value (slope_attr A) = Inr a" "attr_value (slope_attr B) = Inr b"
    by (cases "attr_value (slope_attr A)"; cases "attr_value (slope_attr B)") auto
  then show ?thesis
  proof cases
    case s1
    then show ?thesis
      by (cases "attr_value (slope_attr B)")
        (auto simp add: distance_metric_value dest: attr_value_Inl)
  next
    case s2
    then show ?thesis
      by (cases "attr_value (slope_attr A)")
        (auto simp add: distance_metric_value dest: attr_value_Inl)
  next
    case ok
    show ?thesis
    proof (cases "np_broadcast (-) a b")
      case (Inl e)
      then show ?thesis
        by (simp add: distance_metric_value ok np_broadcast_minus_swap [of b a])
    next
      case num: (Inr n)
      consider (e1) e where "attr_value (slope_err_attr A) = Inl e"
        | (e2) e where "attr_value (slope_err_attr B) = Inl e"
        | (eok) u v where "attr_value (slope_err_attr A) = Inr u"
            "attr_value (slope_err_attr B) = Inr v"
        by (cases "attr_value (slope_err_attr A)"; cases "attr_value (slope_err_attr B)") auto
      then show ?thesis
      proof cases
        case e1
        then show ?thesis
          by (cases "attr_value (slope_err_attr B)")
            (auto simp add: distance_metric_value ok num np_broadcast_minus_swap [of b a]
              dest: attr_value_Inl)
      next
        case e2
        then show ?thesis
          by (cases "attr_value (slope_err_attr A)")
            (auto simp add: distance_metric_value ok num np_broadcast_minus_swap [of b a]
              dest: attr_value_Inl)
      next
        case eok
        show ?thesis
          using distance_value_swap [of b a v u]
          by (simp add: distance_metric_value ok eok)
      qed
    qed
  qed
qed

subsection \<open>The distance of two pipelines\<close>

text \<open>
  C5. The distance stored for the pipelines \<open>A\<close> and \<open>B\<close> is the one stored for \<open>B\<close>
  and \<open>A\<close>, and the two calls raise the same exception when they raise. Whenever both
  calls return, verbose or not, the two distances are equal. For float slopes and slope
  errors, not both errors zero, the distance is
  \<open>|slope1 - slope2| / sqrt(slope_err1\<^sup>2 + slope_err2\<^sup>2)\<close>, and the call returns.
\<close>

theorem distance_metric_symmetric:
  "map_sum id distance (distance_metric report False (d\<lparr>pspec1 := A, pspec2 := B\<rparr>))
     = map_sum id distance (distance_metric report False (d\<lparr>pspec1 := B, pspec2 := A\<rparr>))
   \<and> (\<forall>v1 v2 r1 r2.
        distance_metric report v1 (d\<lparr>pspec1 := A, pspec2 := B\<rparr>) = Inr r1
        \<and> distance_metric report v2 (d\<lparr>pspec1 := B, pspec2 := A\<rparr>) = Inr r2
        \<longrightarrow> distance r1 = distance r2)
   \<and> (\<forall>a b e1 e2.
        slope_attr A = Val (Scalar a) \<and> slope_attr B = Val (Scalar b)
        \<and> slope_err_attr A = Val (Scalar e1) \<and> slope_err_attr B = Val (Scalar e2)
        \<and> e1\<^sup>2 + e2\<^sup>2 \<noteq> 0
        \<longrightarrow> distance_metric report False (d\<lparr>pspec1 := A, pspec2 := B\<rparr>)
              = Inr (d\<lparr>pspec1 := A, pspec2 := B,
                       distance := Val (Scalar (\<bar>a - b\<bar> / sqrt (e1\<^sup>2 + e2\<^sup>2)))\<rparr>))"
proof (intro conjI allI impI)
  show "map_sum id distance (distance_metric report False (d\<lparr>pspec1 := A, pspec2 := B\<rparr>))
     = map_sum id distance (distance_metric report False (d\<lparr>pspec1 := B, pspec2 := A\<rparr>))"
    by (rule distance_swap)
next
  fix v1 v2 r1 r2
  assume "distance_metric report v1 (d\<lparr>pspec1 := A, pspec2 := B\<rparr>) = Inr r1
        \<and> distance_metric report v2 (d\<lparr>pspec1 := B, pspec2 := A\<rparr>) = Inr r2"
  then show "distance r1 = distance r2"
    using distance_swap [where report = report and d = d and A = A and B = B]
    by (auto dest!: distance_metric_distance)
next
  fix a b e1 e2
  assume "slope_attr A = Val (Scalar a) \<and> slope_attr B = Val (Scalar b)
        \<and> slope_err_attr A = Val (Scalar e1) \<and> slope_err_attr B = Val (Scalar e2)
        \<and> e1\<^sup>2 + e2\<^sup>2 \<noteq> 0"
  then show "distance_metric report False (d\<lparr>pspec1 := A, pspec2 := B\<rparr>)
              = Inr (d\<lparr>pspec1 := A, pspec2 := B,
                       distance := Val (Scalar (\<bar>a - b\<bar> / sqrt (e1\<^sup>2 + e2\<^sup>2)))\<rparr>)"
    by (simp add: distance_metric_def attr_value_def np_quotient_def Let_def abs_divide)
qed

theorem distance_metric_symmetric_witness:
  "distance_metric (\<lambda>d. Inr ()) False demo_distance
     = Inr (demo_distance\<lparr>distance :=
              Val (Scalar (\<bar>- 1 - (- 3)\<bar> / sqrt ((1 / 20)\<^sup>2 + 0\<^sup>2)))\<rparr>)
   \<and> map_sum id distance (distance_metric (\<lambda>d. Inr ()) False demo_distance)
     = map_sum id distance (distance_metric (\<lambda>d. Inr ()) False demo_distance_swapped)"
proof -
  have a: "slope_attr demo_fitted = Val (Scalar (- 1))"
    "slope_err_attr demo_fitted = Val (Scalar (1 / 20))"
    by (simp_all add: demo_fitted_def)
  have d: "demo_distance\<lparr>pspec1 := demo_fitted,
      pspec2 := demo_fitted\<lparr>slope_attr := Val (Scalar (- 3)), slope_err_attr := Val (Scalar 0)\<rparr>\<rparr>
      = demo_distance"
    "demo_distance\<lparr>
      pspec1 := demo_fitted\<lparr>slope_attr := Val (Scalar (- 3)), slope_err_attr := Val (Scalar 0)\<rparr>,
      pspec2 := demo_fitted\<rparr> = demo_distance_swapped"
    by (simp_all add: demo_distance_def demo_distance_swapped_def)
  note T = distance_metric_symmetric [where report = "\<lambda>d. Inr ()" and d = demo_distance
        and A = demo_fitted
        and B = "demo_fitted\<lparr>slope_attr := Val (Scalar (- 3)), slope_err_attr := Val (Scalar 0)\<rparr>",
        unfolded d]
  note C = T [THEN conjunct2, THEN conjunct2, rule_format, of "- 1" "- 3" "1 / 20" 0]
  have "distance_metric (\<lambda>d. Inr ()) False demo_distance
     = Inr (demo_distance\<lparr>distance :=
              Val (Scalar (\<bar>- 1 - (- 3)\<bar> / sqrt ((1 / 20)\<^sup>2 + 0\<^sup>2)))\<rparr>)"
    by (rule C) (simp add: a)
  with T show ?thesis by blast
qed

section \<open>The 2D power spectrum against its specification\<close>

subsection \<open>Centring, and elementwise operations under it\<close>

lemma fftshift1_map: "fftshift1 (map f xs) = map f (fftshift1 xs)"
  by (simp add: fftshift1_def Let_def drop_map take_map)

lemma fftshift_map: "fftshift (map (map f) m) = map (map f) (fftshift m)"
  by (simp add: fftshift_def fftshift1_map comp_def)

lemma length_fftshift1: "length (fftshift1 xs) = length xs"
  by (simp add: fftshift1_def Let_def)

lemma set_fftshift1: "set (fftshift1 xs) = set xs"
proof -
  define k where "k = length xs - length xs div 2"
  have "set (fftshift1 xs) = set (drop k xs) \<union> set (take k xs)"
    by (simp add: fftshift1_def Let_def k_def)
  also have "\<dots> = set (take k xs @ drop k xs)"
    by (simp only: set_append Un_commute)
  finally show ?thesis by simp
qed

lemma fftshift1_inj:
  assumes "fftshift1 xs = fftshift1 ys"
  shows "xs = ys"
proof -
  have len: "length xs = length ys"
    using arg_cong [OF assms, of length] by (simp add: length_fftshift1)
  define k where "k = length xs - length xs div 2"
  have "drop k xs @ take k xs = drop k ys @ take k ys"
    using assms len by (simp add: fftshift1_def Let_def k_def)
  moreover have "length (drop k xs) = length (drop k ys)" using len by simp
  ultimately have "drop k xs = drop k ys" "take k xs = take k ys" by simp_all
  then have "take k xs @ drop k xs = take k ys @ drop k ys" by simp
  then show ?thesis by simp
qed

lemma map_length_fftshift: "map length (fftshift m) = fftshift1 (map length m)"
  by (simp add: fftshift_def fftshift1_map [symmetric] comp_def length_fftshift1)

lemma shape_fftshift_eq:
  "map length (fftshift A) = map length (fftshift B) \<longleftrightarrow> map length A = map length B"
  by (auto simp add: map_length_fftshift dest: fftshift1_inj)

lemma fftshift1_zip:
  "length xs = length ys \<Longrightarrow> fftshift1 (zip xs ys) = zip (fftshift1 xs) (fftshift1 ys)"
  by (simp add: fftshift1_def Let_def drop_zip take_zip zip_append)

lemma fftshift1_map2:
  "length xs = length ys \<Longrightarrow> fftshift1 (map2 f xs ys) = map2 f (fftshift1 xs) (fftshift1 ys)"
  by (simp add: fftshift1_map fftshift1_zip)

lemma map_fftshift1_map2:
  assumes "map length A = map length B"
  shows "map fftshift1 (map2 (map2 f) A B) = map2 (map2 f) (map fftshift1 A) (map fftshift1 B)"
  using assms
proof (induction A arbitrary: B)
  case Nil
  then show ?case by simp
next
  case (Cons r A)
  then show ?case by (cases B) (simp_all add: fftshift1_map2)
qed

lemma fftshift_map2:
  assumes "map length A = map length B"
  shows "fftshift (map2 (map2 f) A B) = map2 (map2 f) (fftshift A) (fftshift B)"
proof -
  have len: "length (map fftshift1 A) = length (map fftshift1 B)"
    using arg_cong [OF assms, of length] by simp
  have "fftshift (map2 (map2 f) A B) = fftshift1 (map fftshift1 (map2 (map2 f) A B))"
    by (simp only: fftshift_def)
  also have "\<dots> = fftshift1 (map2 (map2 f) (map fftshift1 A) (map fftshift1 B))"
    by (simp only: map_fftshift1_map2 [OF assms])
  also have "\<dots> = map2 (map2 f) (fftshift1 (map fftshift1 A)) (fftshift1 (map fftshift1 B))"
    by (rule fftshift1_map2 [OF len])
  finally show ?thesis
    by (simp only: fftshift_def)
qed


lemma fftshift1_centred1: "fftshift1 xs = centred1 xs"
proof (rule nth_equalityI)
  show "length (fftshift1 xs) = length (centred1 xs)"
    by (simp add: length_fftshift1 centred1_def)
next
  fix i assume "i < length (fftshift1 xs)"
  then have i: "i < length xs" by (simp add: length_fftshift1)
  define n where "n = length xs"
  define k where "k = n - n div 2"
  have k: "k \<le> n" "n - k = n div 2" by (simp_all add: k_def)
  have l: "fftshift1 xs ! i = (drop k xs @ take k xs) ! i"
    by (simp add: fftshift1_def Let_def k_def n_def)
  have r: "centred1 xs ! i = xs ! ((i + k) mod n)"
    using i by (simp add: centred1_def k_def n_def)
  show "fftshift1 xs ! i = centred1 xs ! i"
  proof (cases "i < n div 2")
    case True
    then have "i + k < n" using k by linarith
    then have "(i + k) mod n = k + i" by (simp add: add.commute)
    moreover have "(drop k xs @ take k xs) ! i = xs ! (k + i)"
      using True k by (simp add: nth_append n_def)
    ultimately show ?thesis by (simp add: l r)
  next
    case False
    then have ge: "n \<le> i + k" using k by linarith
    have lt: "i + k - n < n" using i k by (simp add: n_def)
    have "(i + k) mod n = (i + k - n) mod n" using ge by (rule le_mod_geq)
    also have "\<dots> = i + k - n" using lt by simp
    also have "\<dots> = i - n div 2" using k False by linarith
    finally have m: "(i + k) mod n = i - n div 2" .
    have "(drop k xs @ take k xs) ! i = take k xs ! (i - n div 2)"
      using False k by (simp add: nth_append n_def)
    also have "\<dots> = xs ! (i - n div 2)"
      using i k False by (simp add: n_def) 
    finally show ?thesis by (simp add: l r m)
  qed
qed

lemma fftshift_centred: "fftshift m = centred m"
proof -
  have rows: "map fftshift1 m = map centred1 m"
    by (rule map_cong) (simp_all add: fftshift1_centred1)
  have "fftshift m = centred1 (map fftshift1 m)"
    by (simp only: fftshift_def fftshift1_centred1)
  then show ?thesis
    by (simp only: rows centred_def)
qed

lemma map2_pointwise:
  assumes "map length A = map length B"
  shows "map2 (map2 f) A B = pointwise f A B"
proof (rule nth_equalityI)
  have len: "length A = length B" using arg_cong [OF assms, of length] by simp
  show "length (map2 (map2 f) A B) = length (pointwise f A B)"
    using len by (simp add: pointwise_def)
  fix i assume "i < length (map2 (map2 f) A B)"
  then have i: "i < length A" "i < length B" using len by simp_all
  have row: "length (A ! i) = length (B ! i)"
    using arg_cong [OF assms, of "\<lambda>l. l ! i"] i by simp
  have "map2 f (A ! i) (B ! i) = map (\<lambda>j. f (A ! i ! j) (B ! i ! j)) [0..<length (A ! i)]"
    using row by (intro nth_equalityI) simp_all
  then show "map2 (map2 f) A B ! i = pointwise f A B ! i"
    using i by (simp add: pointwise_def)
qed


lemma power2_divide_entry:
  "entry_power2 (divide_entry (cmod t) (cmod b)) = squared_magnitude (quotient t b)"
  by (simp add: divide_entry_def quotient_def norm_divide)

lemma map2_map_both: "map2 f (map g xs) (map g ys) = map2 (\<lambda>a b. f (g a) (g b)) xs ys"
proof (induction xs arbitrary: ys)
  case Nil
  then show ?case by simp
next
  case (Cons x xs)
  then show ?case by (cases ys) simp_all
qed

lemma map_map2: "map h (map2 f xs ys) = map2 (\<lambda>a b. h (f a b)) xs ys"
  by (simp add: case_prod_unfold)

lemma matrix_map2_map_both:
  "map2 (map2 f) (map (map g) A) (map (map g) B) = map2 (map2 (\<lambda>a b. f (g a) (g b))) A B"
proof (induction A arbitrary: B)
  case Nil
  then show ?case by simp
next
  case (Cons r A)
  then show ?case by (cases B) (simp_all add: map2_map_both)
qed

lemma matrix_map_map2:
  "map (map h) (map2 (map2 f) A B) = map2 (map2 (\<lambda>a b. h (f a b))) A B"
  by (simp add: case_prod_unfold comp_def)

lemma beam_divided_spectrum:
  assumes "map length T = map length B"
  shows "map (map entry_power2)
           (map2 (map2 divide_entry) (fftshift (map (map cmod) T)) (fftshift (map (map cmod) B)))
         = centred (map (map squared_magnitude) (pointwise quotient T B))"
proof -
  have sh: "map length (map (map cmod) T) = map length (map (map cmod) B)"
    using assms by (simp add: comp_def)
  have "map (map entry_power2)
          (map2 (map2 divide_entry) (fftshift (map (map cmod) T)) (fftshift (map (map cmod) B)))
      = map (map entry_power2)
          (fftshift (map2 (map2 divide_entry) (map (map cmod) T) (map (map cmod) B)))"
    by (simp only: fftshift_map2 [OF sh])
  also have "\<dots> = fftshift (map (map entry_power2)
          (map2 (map2 divide_entry) (map (map cmod) T) (map (map cmod) B)))"
    by (simp only: fftshift_map)
  also have "map (map entry_power2)
          (map2 (map2 divide_entry) (map (map cmod) T) (map (map cmod) B))
      = map2 (map2 (\<lambda>t b. squared_magnitude (quotient t b))) T B"
    by (simp only: matrix_map2_map_both matrix_map_map2 power2_divide_entry)
  also have "\<dots> = map (map squared_magnitude) (map2 (map2 quotient) T B)"
    by (simp only: matrix_map_map2)
  also have "map2 (map2 quotient) T B = pointwise quotient T B"
    by (rule map2_pointwise [OF assms])
  finally show ?thesis by (simp only: fftshift_centred)
qed

lemma plain_spectrum:
  "finite_array (np_power2 (fftshift (map (map cmod) T)))
     = centred (map (map squared_magnitude) (map (map Number) T))"
  by (simp add: finite_array_def np_power2_def fftshift_map fftshift_centred [symmetric] comp_def)


lemma fft_input_window:
  assumes "fft_input lib apodize alpha s = Inr w"
  shows "if apodize
         then \<exists>k. apodizing_kernel lib (data s) alpha = Inr k
                \<and> w = pointwise (*) (weighted_data s) k
         else w = weighted_data s"
proof (cases apodize)
  case False
  with assms show ?thesis by (simp add: fft_input_def)
next
  case True
  with assms obtain k where k: "apodizing_kernel lib (data s) alpha = Inr k"
    and m: "np_multiply (weighted_data s) k = Inr w"
    by (auto simp add: fft_input_def ebind_eq_Inr)
  from m have "map length (weighted_data s) = map length k" "w = map2 (map2 (*)) (weighted_data s) k"
    by (auto simp add: np_multiply_def split: if_splits)
  then have "w = pointwise (*) (weighted_data s) k"
    by (simp only: map2_pointwise)
  with k True show ?thesis by simp
qed

lemma compute_pspec_plain:
  assumes "compute_pspec lib beam_correct apodize alpha s = Inr s'"
    and "(if beam_correct then beam_attr s else None) = None"
  obtains w where "fft_input lib apodize alpha s = Inr w"
    "ps2D_attr s' = Val (finite_array (np_power2 (fftshift (rfft_to_fft lib w))))"
  using assms
  by (auto simp add: compute_pspec_def ebind_eq_Inr Let_def)

lemma compute_pspec_beam:
  assumes "compute_pspec lib beam_correct apodize alpha s = Inr s'"
    and "(if beam_correct then beam_attr s else None) = Some b"
  obtains w cd k where "fft_input lib apodize alpha s = Inr w"
    "cdelt0 s = Some cd"
    "as_kernel lib b cd (fst (shape (data s))) (snd (shape (data s))) = Inr k"
    "map length (fftshift (rfft_to_fft lib w)) = map length (fftshift (rfft_to_fft lib k))"
    "ps2D_attr s' = Val (map (map entry_power2)
        (map2 (map2 divide_entry) (fftshift (rfft_to_fft lib w)) (fftshift (rfft_to_fft lib k))))"
proof -
  from assms obtain w k q where w: "fft_input lib apodize alpha s = Inr w"
    and k: "beam_kernel lib b s = Inr k"
    and q: "np_true_divide (fftshift (rfft_to_fft lib w)) (fftshift (rfft_to_fft lib k)) = Inr q"
    and p: "s' = s\<lparr>ps2D_attr := Val (map (map entry_power2) q)\<rparr>"
    by (auto simp add: compute_pspec_def ebind_eq_Inr Let_def)
  from k obtain cd where cd: "cdelt0 s = Some cd"
    "as_kernel lib b cd (fst (shape (data s))) (snd (shape (data s))) = Inr k"
    by (auto simp add: beam_kernel_def split: option.splits)
  from q have sh: "map length (fftshift (rfft_to_fft lib w)) = map length (fftshift (rfft_to_fft lib k))"
    and qv: "q = map2 (map2 divide_entry) (fftshift (rfft_to_fft lib w)) (fftshift (rfft_to_fft lib k))"
    by (auto simp add: np_true_divide_def split: if_splits)
  from p qv have "ps2D_attr s' = Val (map (map entry_power2)
        (map2 (map2 divide_entry) (fftshift (rfft_to_fft lib w)) (fftshift (rfft_to_fft lib k))))"
    by simp
  with w cd sh show ?thesis by (rule that)
qed

lemma nonneg_power2_divide:
  "nonneg_real (entry_power2 (divide_entry (x :: real) y)) \<longleftrightarrow> y \<noteq> 0"
  by (simp add: divide_entry_def)

lemma nonneg_quotient_entries:
  assumes "map length F = map length G" and "i < length F" and "j < length (F ! i)"
  shows "nonneg_real (map (map entry_power2) (map2 (map2 divide_entry) F G) ! i ! j)
           \<longleftrightarrow> G ! i ! j \<noteq> (0 :: real)"
  using assms(2,3)
  by (simp add: map2_pointwise [OF assms(1)] pointwise_def nonneg_power2_divide)

lemma length_quotient_entries:
  assumes "map length F = map length G"
  shows "length (map (map entry_power2) (map2 (map2 divide_entry) F G)) = length F"
    "i < length F \<Longrightarrow> length (map (map entry_power2) (map2 (map2 divide_entry) F G) ! i)
       = length (F ! i)"
  by (simp_all add: map2_pointwise [OF assms] pointwise_def)

lemma nonneg_plain: "list_all (list_all nonneg_real) (finite_array (np_power2 (A :: real matrix)))"
  by (simp add: finite_array_def np_power2_def list_all_iff)

subsection \<open>A transform of two rows and two columns\<close>

lemma cis_minus_pi: "cis (- pi) = - 1"
  by (simp add: complex_eq_iff)

lemma cis_minus_2pi: "cis (- (2 * pi)) = 1"
  by (simp add: complex_eq_iff)

lemma dft2_2x2:
  "dft2 [[a, b], [c, d]] =
     [[complex_of_real (a + b + c + d), complex_of_real (a - b + c - d)],
      [complex_of_real (a + b - c - d), complex_of_real (a - b - c + d)]]"
  by (simp add: dft2_def Let_def numeral_2_eq_2 lessThan_Suc upt_rec cis_minus_pi cis_minus_2pi)

lemma rfft_2x2:
  "rfft_to_fft_spec [[a, b], [c, d]] =
     [[\<bar>a + b + c + d\<bar>, \<bar>a - b + c - d\<bar>], [\<bar>a + b - c - d\<bar>, \<bar>a - b - c + d\<bar>]]"
  by (simp only: rfft_to_fft_spec_def dft2_2x2 list.map norm_of_real real_norm_def)

lemma demo_beamed_compute:
  "compute_pspec demo_dft_lib True False (3 / 10) demo_beamed
     = Inr (demo_beamed\<lparr>ps2D_attr := Val [[NotANumber, Infinity], [Infinity, Number (25 / 4)]]\<rparr>)"
  by (simp add: compute_pspec_def fft_input_def beam_kernel_def demo_beamed_def
      demo_constructed_def demo_dft_lib_def demo_fft_lib_def rfft_2x2 shape_def
      fftshift_def fftshift1_def np_true_divide_def divide_entry_def numeral_2_eq_2
      power2_eq_square)


lemma demo_unbeamed_compute:
  "compute_pspec demo_dft_lib False False (3 / 10) demo_beamed
     = Inr (demo_beamed\<lparr>ps2D_attr := Val [[Number 0, Number 16], [Number 4, Number 100]]\<rparr>)"
  by (simp add: compute_pspec_def fft_input_def demo_beamed_def
      demo_constructed_def demo_dft_lib_def demo_fft_lib_def rfft_2x2
      fftshift_def fftshift1_def np_power2_def finite_array_def numeral_2_eq_2)

lemma demo_beamed_fields:
  "beam_attr demo_beamed = Some ()" "cdelt0 demo_beamed = Some 1"
  "data demo_beamed = [[1, 2], [3, 4]]" "weighted_data demo_beamed = [[1, 2], [3, 4]]"
  by (simp_all add: demo_beamed_def)

lemma demo_dft_lib_fields:
  "rfft_to_fft demo_dft_lib = rfft_to_fft_spec"
  "as_kernel demo_dft_lib b cd ny nx = Inr (replicate ny (replicate nx 1))"
  by (simp_all add: demo_dft_lib_def demo_fft_lib_def)

subsection \<open>compute_pspec refines the specification\<close>

text \<open>
  C2, as stated, fails: with a beam correction, an entry of \<open>ps2D\<close> where the transform
  of the beam is zero is \<open>nan\<close> or infinite, not a non-negative real number. For the
  weighted data \<open>[[1, 2], [3, 4]]\<close> and the flat beam kernel \<open>[[1, 1], [1, 1]]\<close>, whose
  transform is zero away from the zero frequency, three of the four entries are so.
\<close>

theorem ps2D_not_a_real_counterexample:
  "compute_pspec demo_dft_lib True False (3 / 10) demo_beamed
     = Inr (demo_beamed\<lparr>ps2D_attr := Val [[NotANumber, Infinity], [Infinity, Number (25 / 4)]]\<rparr>)
   \<and> \<not> nonneg_real NotANumber \<and> \<not> nonneg_real Infinity"
  by (simp add: demo_beamed_compute)

text \<open>
  C2, amended. Whenever \<open>compute_pspec\<close> returns, \<open>ps2D\<close> holds an array \<open>P\<close> such that:
  when no beam correction is applied (it is not requested, or there is no beam), every
  entry of \<open>P\<close> is a non-negative real number; when it is applied, an entry of \<open>P\<close> is a
  non-negative real number exactly where the centred transform of the beam kernel, as
  \<open>rfft_to_fft\<close> returns it, is not zero; and, with \<open>rfft_to_fft\<close> the magnitude of the 2D
  Fourier transform, \<open>P\<close> is the squared magnitude of the frequency-centred transform of
  the weighted data, multiplied by the apodizing window when apodization is requested and
  divided by the transform of the beam kernel when the correction is applied.
\<close>

theorem ps2D_squared_magnitude:
  fixes lib :: "(real, 'b) fft_lib"
  assumes "compute_pspec lib beam_correct apodize alpha s = Inr s'"
  shows "\<exists>P. ps2D_attr s' = Val P
     \<and> (case (if beam_correct then beam_attr s else None) of
          None \<Rightarrow> list_all (list_all nonneg_real) P
        | Some b \<Rightarrow>
            \<exists>cd k. cdelt0 s = Some cd
              \<and> as_kernel lib b cd (fst (shape (data s))) (snd (shape (data s))) = Inr k
              \<and> (\<forall>i j. i < length P \<and> j < length (P ! i) \<longrightarrow>
                    (nonneg_real (P ! i ! j) \<longleftrightarrow> fftshift (rfft_to_fft lib k) ! i ! j \<noteq> 0)))
     \<and> (rfft_to_fft lib = rfft_to_fft_spec \<longrightarrow>
          (\<exists>window beam_kern.
             (if apodize
              then \<exists>k. apodizing_kernel lib (data s) alpha = Inr k \<and> window = Some k
              else window = None)
           \<and> (case (if beam_correct then beam_attr s else None) of
                None \<Rightarrow> beam_kern = None
              | Some b \<Rightarrow>
                  \<exists>cd k. cdelt0 s = Some cd
                    \<and> as_kernel lib b cd (fst (shape (data s))) (snd (shape (data s))) = Inr k
                    \<and> beam_kern = Some k)
           \<and> P = power_spectrum_spec (weighted_data s) window beam_kern))"
proof (cases "if beam_correct then beam_attr s else None")
  case None
  from assms None obtain w where w: "fft_input lib apodize alpha s = Inr w"
    and p: "ps2D_attr s' = Val (finite_array (np_power2 (fftshift (rfft_to_fft lib w))))"
    by (rule compute_pspec_plain)
  note win = fft_input_window [OF w]
  have spec: "\<exists>window.
      (if apodize
       then \<exists>k. apodizing_kernel lib (data s) alpha = Inr k \<and> window = Some k
       else window = None)
      \<and> finite_array (np_power2 (fftshift (rfft_to_fft lib w)))
          = power_spectrum_spec (weighted_data s) window None"
    if rf: "rfft_to_fft lib = rfft_to_fft_spec"
  proof (cases apodize)
    case False
    with win show ?thesis
      by (simp add: rf rfft_to_fft_spec_def plain_spectrum power_spectrum_spec_def)
  next
    case True
    with win obtain k where "apodizing_kernel lib (data s) alpha = Inr k"
      "w = pointwise (*) (weighted_data s) k" by auto
    with True show ?thesis
      by (simp add: rf rfft_to_fft_spec_def plain_spectrum power_spectrum_spec_def)
  qed
  show ?thesis
    using p None spec by (auto simp add: nonneg_plain)
next
  case (Some b)
  from assms Some obtain w cd k where w: "fft_input lib apodize alpha s = Inr w"
    and cd: "cdelt0 s = Some cd"
    and k: "as_kernel lib b cd (fst (shape (data s))) (snd (shape (data s))) = Inr k"
    and sh: "map length (fftshift (rfft_to_fft lib w)) = map length (fftshift (rfft_to_fft lib k))"
    and p: "ps2D_attr s' = Val (map (map entry_power2)
        (map2 (map2 divide_entry) (fftshift (rfft_to_fft lib w)) (fftshift (rfft_to_fft lib k))))"
    by (rule compute_pspec_beam)
  define P where "P = map (map entry_power2)
        (map2 (map2 divide_entry) (fftshift (rfft_to_fft lib w)) (fftshift (rfft_to_fft lib k)))"
  note win = fft_input_window [OF w]
  have entries: "nonneg_real (P ! i ! j) \<longleftrightarrow> fftshift (rfft_to_fft lib k) ! i ! j \<noteq> 0"
    if "i < length P \<and> j < length (P ! i)" for i j
  proof -
    have "length P = length (fftshift (rfft_to_fft lib w))"
      unfolding P_def by (rule length_quotient_entries(1) [OF sh])
    with that have i: "i < length (fftshift (rfft_to_fft lib w))"
      by (simp only:)
    have "length (P ! i) = length (fftshift (rfft_to_fft lib w) ! i)"
      unfolding P_def by (rule length_quotient_entries(2) [OF sh i])
    with that have j: "j < length (fftshift (rfft_to_fft lib w) ! i)"
      by (simp only:)
    show ?thesis
      unfolding P_def by (rule nonneg_quotient_entries [OF sh i j])
  qed
  have spec: "\<exists>window.
      (if apodize
       then \<exists>k. apodizing_kernel lib (data s) alpha = Inr k \<and> window = Some k
       else window = None)
      \<and> P = power_spectrum_spec (weighted_data s) window (Some k)"
    if rf: "rfft_to_fft lib = rfft_to_fft_spec"
  proof -
    have "map length (map (map cmod) (dft2 w)) = map length (map (map cmod) (dft2 k))"
      using sh by (simp only: rf rfft_to_fft_spec_def shape_fftshift_eq)
    then have shT: "map length (dft2 w) = map length (dft2 k)"
      by (simp add: comp_def)
    have pv: "P = centred (map (map squared_magnitude) (pointwise quotient (dft2 w) (dft2 k)))"
      unfolding P_def rf rfft_to_fft_spec_def by (rule beam_divided_spectrum [OF shT])
    show ?thesis
    proof (cases apodize)
      case False
      with win show ?thesis
        by (simp add: pv power_spectrum_spec_def)
    next
      case True
      with win obtain k' where "apodizing_kernel lib (data s) alpha = Inr k'"
        "w = pointwise (*) (weighted_data s) k'" by auto
      with True show ?thesis
        by (simp add: pv power_spectrum_spec_def)
    qed
  qed
  show ?thesis
    using p Some cd k entries spec
    unfolding P_def [symmetric]
    by (auto simp del: ex_simps)
qed

theorem ps2D_squared_magnitude_witness:
  "power_spectrum_spec [[1, 2], [3, 4]] None (Some [[1, 1], [1, 1]])
     = [[NotANumber, Infinity], [Infinity, Number (25 / 4)]]
   \<and> power_spectrum_spec [[1, 2], [3, 4]] None None
     = [[Number 0, Number 16], [Number 4, Number 100]]
   \<and> nonneg_real (Number (25 / 4))
   \<and> fftshift (rfft_to_fft demo_dft_lib [[1, 1], [1, 1]]) ! 1 ! 1 \<noteq> 0"
proof -
  note B = ps2D_squared_magnitude [OF demo_beamed_compute]
  note U = ps2D_squared_magnitude [OF demo_unbeamed_compute]
  have b: "power_spectrum_spec [[1, 2], [3, 4]] None (Some [[1, 1], [1, 1]])
     = [[NotANumber, Infinity], [Infinity, Number (25 / 4)]]"
    using B by (simp add: demo_beamed_fields demo_dft_lib_fields shape_def)
  have u: "power_spectrum_spec [[1, 2], [3, 4]] None None
     = [[Number 0, Number 16], [Number 4, Number 100]]"
    using U by (simp add: demo_beamed_fields demo_dft_lib_fields)
  have "\<forall>i j. i < length [[NotANumber, Infinity], [Infinity, Number (25 / 4 :: real)]]
        \<and> j < length ([[NotANumber, Infinity], [Infinity, Number (25 / 4 :: real)]] ! i) \<longrightarrow>
      (nonneg_real ([[NotANumber, Infinity], [Infinity, Number (25 / 4)]] ! i ! j)
        \<longleftrightarrow> fftshift (rfft_to_fft demo_dft_lib [[1, 1], [1, 1]]) ! i ! j \<noteq> 0)"
    using B by (simp add: demo_beamed_fields demo_dft_lib_fields shape_def b)
  from this [rule_format, of 1 1]
  have e: "nonneg_real (Number (25 / 4))
      \<longleftrightarrow> fftshift (rfft_to_fft demo_dft_lib [[1, 1], [1, 1]]) ! 1 ! 1 \<noteq> 0"
    by simp
  from b u e show ?thesis by simp
qed

section \<open>The default cutoffs of the fit\<close>

subsection \<open>The shape of the 2D power spectrum, and selection by a mask\<close>

lemma fit_data_mask_lengths:
  assumes "fit_data lib s lo hi = Inr (x, y)" "freqs_attr s = Val f" "ps1D_attr s = Val p"
  shows "length (clip_func lib f lo hi) = length f \<and> length p = length f"
  using assms
  by (auto simp add: fit_data_def ebind_eq_Inr attr_value_def mask_select_def split: if_splits)

lemma fit_pspec_default_stages:
  assumes "fit_pspec lib brk log_break None None min_fits_pts verbose s = Inr s'"
  shows "\<exists>p2 f p. ps2D_attr s = Val p2 \<and> freqs_attr s = Val f \<and> ps1D_attr s = Val p \<and>
     length p = length f \<and>
     (let lo = 1 / (0.5 * real (max (fst (shape p2)) (snd (shape p2))));
          hi = Max (set f) + 1;
          keep = clip_func lib f lo hi;
          x = map (log 10) (map fst (filter snd (zip f keep)));
          y = map (log 10) (map fst (filter snd (zip p keep)))
      in length keep = length f \<and> low_cut s' = Val lo \<and> high_cut s' = Val hi \<and>
         fit_pspec lib brk log_break None None min_fits_pts verbose s =
           ebind (fit_break lib brk log_break min_fits_pts verbose x y
                    (s\<lparr>low_cut := Val lo, high_cut := Val hi\<rparr>))
                 (\<lambda>(x', y', s2). fit_ols lib x' y' s2) \<and>
         (brk = None \<longrightarrow> (\<exists>res. ols lib x y = Inr res \<and> fit s' = Val res)))"
proof -
  from assms obtain lo hi x y x' y' s2 where
    lim: "fit_limits lib None None s = Inr (lo, hi)"
    and dat: "fit_data lib (s\<lparr>low_cut := Val lo, high_cut := Val hi\<rparr>) lo hi = Inr (x, y)"
    and brk: "fit_break lib brk log_break min_fits_pts verbose x y
                (s\<lparr>low_cut := Val lo, high_cut := Val hi\<rparr>) = Inr (x', y', s2)"
    and fin: "fit_ols lib x' y' s2 = Inr s'"
    by (auto simp add: fit_pspec_def ebind_eq_Inr Let_def)
  from lim obtain p2 f where
    p2: "ps2D_attr s = Val p2" and f: "freqs_attr s = Val f"
    and lo: "lo = 1 / (0.5 * real (max (fst (shape p2)) (snd (shape p2))))"
    and hi: "hi = Max (set f) + 1"
    by (rule fit_limits_default)
  from dat obtain f' p where
    f': "freqs_attr (s\<lparr>low_cut := Val lo, high_cut := Val hi\<rparr>) = Val f'"
    and p: "ps1D_attr (s\<lparr>low_cut := Val lo, high_cut := Val hi\<rparr>) = Val p"
    and x: "x = map (log 10) (map fst (filter snd (zip f' (clip_func lib f' lo hi))))"
    and y: "y = map (log 10) (map fst (filter snd (zip p (clip_func lib f' lo hi))))"
    by (rule fit_data_explicit)
  have ff: "f' = f" using f f' by simp
  have pp: "ps1D_attr s = Val p" using p by simp
  have lens: "length (clip_func lib f lo hi) = length f" "length p = length f"
    using fit_data_mask_lengths [OF dat f' p] by (simp_all add: ff)
  have cuts: "low_cut s' = Val lo" "high_cut s' = Val hi"
    using fit_ols_frame(4,5) [OF fin] fit_break_frame [OF brk] by simp_all
  have stages: "fit_pspec lib brk log_break None None min_fits_pts verbose s =
           ebind (fit_break lib brk log_break min_fits_pts verbose x y
                    (s\<lparr>low_cut := Val lo, high_cut := Val hi\<rparr>))
                 (\<lambda>(x', y', s2). fit_ols lib x' y' s2)"
    by (rule fit_pspec_stages [OF lim dat])
  have none: "\<exists>res. ols lib x y = Inr res \<and> fit s' = Val res" if "brk = None"
  proof -
    from brk that have "x' = x" "y' = y" "brk_attr s2 = PyNone"
      by (auto simp add: fit_break_none)
    with fin show ?thesis
      by (auto simp add: fit_ols_def attr_get_def ebind_eq_Inr)
  qed
  show ?thesis
    apply (rule exI [of _ p2], rule exI [of _ f], rule exI [of _ p])
    unfolding Let_def
    using p2 f pp cuts stages none lens
    unfolding x y ff lo hi
    by blast
qed


lemma select_by_mask:
  "map fst (filter snd (zip xs (map P xs))) = filter P xs"
  by (induction xs) simp_all

lemma select_other_by_mask:
  "length ys = length xs \<Longrightarrow>
     map fst (filter snd (zip ys (map P xs))) = map snd (filter (\<lambda>(a, q). P a) (zip xs ys))"
proof (induction xs arbitrary: ys)
  case Nil
  then show ?case by simp
next
  case (Cons x xs)
  then show ?case by (cases ys) simp_all
qed

lemma fftshift1_replicate: "fftshift1 (replicate n c) = replicate n c"
proof -
  have "replicate (n - (n - n div 2)) c @ replicate (min n (n - n div 2)) c = replicate n c"
    by (simp only: replicate_add [symmetric]) (simp add: min_def)
  then show ?thesis by (simp add: fftshift1_def Let_def)
qed

lemma rectangular_lengths:
  "list_all (\<lambda>r. length r = nx) m \<Longrightarrow> map length m = replicate (length m) nx"
  by (induction m) simp_all

lemma shape_cong: "map length A = map length B \<Longrightarrow> shape A = shape B"
proof -
  assume a: "map length A = map length B"
  have "length A = length B" using arg_cong [OF a, of length] by simp
  moreover have "(case A of [] \<Rightarrow> 0 | r # _ \<Rightarrow> length r) = (case B of [] \<Rightarrow> 0 | r # _ \<Rightarrow> length r)"
    using a by (cases A; cases B) simp_all
  ultimately show ?thesis by (simp add: shape_def)
qed

lemma map_length_pointwise: "map length (pointwise f A B) = map length A"
  by (rule nth_equalityI) (simp_all add: pointwise_def)

lemma init_weighted_shape:
  assumes "PowerSpectrum_init idh img header weights distance0 beam = Inr s"
  shows "map length (weighted_data s) = map length (data s)"
proof -
  from assms obtain d w wd where d: "data s = d" and ws: "weighted_data s = wd"
    and m: "np_multiply d w = Inr wd"
    by (auto simp add: PowerSpectrum_init_def ebind_eq_Inr Let_def)
  from m have sh: "map length d = map length w" and "wd = map2 (map2 (*)) d w"
    by (auto simp add: np_multiply_def split: if_splits)
  then have "wd = pointwise (*) d w" by (simp only: map2_pointwise)
  then show ?thesis by (simp add: d ws map_length_pointwise)
qed

lemma fft_input_shape:
  assumes "fft_input lib apodize alpha s = Inr w"
  shows "map length w = map length (weighted_data s)"
  using fft_input_window [OF assms]
  by (cases apodize) (auto simp add: map_length_pointwise)

lemma compute_pspec_shape:
  assumes run: "compute_pspec lib beam_correct apodize alpha s = Inr s'"
    and shp: "\<forall>m. map length (rfft_to_fft lib m) = map length m"
  obtains P where "ps2D_attr s' = Val P"
    "map length P = fftshift1 (map length (weighted_data s))"
proof (cases "if beam_correct then beam_attr s else None")
  case None
  from run None obtain w where w: "fft_input lib apodize alpha s = Inr w"
    and p: "ps2D_attr s' = Val (finite_array (np_power2 (fftshift (rfft_to_fft lib w))))"
    by (rule compute_pspec_plain)
  have "map length (finite_array (np_power2 (fftshift (rfft_to_fft lib w))))
      = map length (fftshift (rfft_to_fft lib w))"
    by (simp add: finite_array_def np_power2_def comp_def)
  also have "\<dots> = fftshift1 (map length (weighted_data s))"
    using shp by (simp add: map_length_fftshift fft_input_shape [OF w])
  finally show ?thesis using p that by blast
next
  case (Some b)
  from run Some obtain w cd k where w: "fft_input lib apodize alpha s = Inr w"
    and sh: "map length (fftshift (rfft_to_fft lib w)) = map length (fftshift (rfft_to_fft lib k))"
    and p: "ps2D_attr s' = Val (map (map entry_power2)
        (map2 (map2 divide_entry) (fftshift (rfft_to_fft lib w)) (fftshift (rfft_to_fft lib k))))"
    by (rule compute_pspec_beam)
  have "map length (map (map entry_power2)
        (map2 (map2 divide_entry) (fftshift (rfft_to_fft lib w)) (fftshift (rfft_to_fft lib k))))
      = map length (fftshift (rfft_to_fft lib w))"
    by (simp only: map2_pointwise [OF sh]) (simp add: comp_def map_length_pointwise)
  also have "\<dots> = fftshift1 (map length (weighted_data s))"
    using shp by (simp add: map_length_fftshift fft_input_shape [OF w])
  finally show ?thesis using p that by blast
qed

lemma compute_pspec_data:
  "compute_pspec lib beam_correct apodize alpha s = Inr s' \<Longrightarrow> data s' = data s"
  by (auto simp add: compute_pspec_def ebind_eq_Inr Let_def split: option.splits)

lemma compute_radial_pspec_frame:
  assumes "compute_radial_pspec pspec return_stddev logspacing max_bin s = Inr t"
  shows "ps2D_attr t = ps2D_attr s" "data t = data s"
  using assms
  by (auto simp add: compute_radial_pspec_def ebind_eq_Inr split: if_splits option.splits)


lemma demo_clip: "clip_func demo_fit_lib = clip_func_spec False False"
  by (simp add: demo_fit_lib_def clip_func_spec_def within_bounds_def fun_eq_iff)

lemma demo_shape_preserved: "\<forall>m. map length (rfft_to_fft demo_fft_lib m) = map length m"
  by (simp add: demo_fft_lib_def comp_def)

lemma demo_binned_radial:
  "compute_radial_pspec demo_pspec False False None
     (demo_constructed\<lparr>ps2D_attr := Val [[Number 9, Number 4], [Number 0, Number 1]]\<rparr>)
   = Inr demo_binned"
  by (simp add: demo_radial demo_binned_def)

lemma demo_binned_limits: "fit_limits demo_fit_lib None None demo_binned = Inr (1, 11)"
  by (simp add: fit_limits_def demo_binned_def attr_value_def shape_def np_divide_def
      array_max_def)

lemma demo_binned_data:
  "fit_data demo_fit_lib (demo_binned\<lparr>low_cut := Val 1, high_cut := Val 11\<rparr>) 1 11
     = Inr ([1], [0])"
  by (simp add: fit_data_def demo_binned_def demo_fit_lib_def attr_value_def
      mask_select_def np_log10_def)

lemma demo_binned_fit_run:
  "fit_pspec demo_fit_lib None False None None 10 False demo_binned = Inr demo_binned_fitted"
  by (simp add: fit_pspec_stages [OF demo_binned_limits demo_binned_data] fit_break_none
      fit_ols_none [OF _ demo_ols] index1_def demo_binned_fitted_def)

subsection \<open>The cutoffs and the data of the fit\<close>

text \<open>
  C3, as stated, fails: with both cutoffs omitted the high-frequency cutoff is not the
  maximum frequency of the profile. For frequencies 0.1, 1 and 10 the cutoff used is 11.
\<close>

theorem default_high_cut_counterexample:
  "fit_pspec demo_fit_lib None False None None 10 False demo_spectrum = Inr demo_fitted
   \<and> freqs_attr demo_spectrum = Val [1 / 10, 1, 10]
   \<and> high_cut demo_fitted = Val 11
   \<and> high_cut demo_fitted \<noteq> Val (Max (set [1 / 10, 1, 10]))"
  by (simp add: demo_fit_run) (simp add: demo_fitted_def demo_spectrum_def)

text \<open>
  C3, amended. On a pipeline that was constructed from a rectangular image, whose 2D
  spectrum was computed and binned, for every returning \<open>fit_pspec\<close> call with both
  cutoffs omitted: the low-frequency cutoff used is 1 divided by half the image's largest
  dimension, the high-frequency cutoff used is the maximum frequency of the binned
  profile plus 1, and the data handed to the regression (the break fit, and the ordinary
  fit, which is the one run when no break guess is given) are exactly the points whose
  frequency lies within these bounds, base-10 log-transformed. \<open>rfft_to_fft\<close> is taken to
  return an array of the shape of its argument, and \<open>clip_func\<close> to be the mask of the
  range, each bound included or not.
\<close>

theorem default_cutoffs:
  assumes "PowerSpectrum_init input_data_header img header weights distance0 beam = Inr s0"
    and "list_all (\<lambda>r. length r = nx) (data s0)"
    and "\<forall>m. map length (rfft_to_fft lib m) = map length m"
    and "compute_pspec lib beam_correct apodize alpha s0 = Inr s1"
    and "compute_radial_pspec pspec return_stddev logspacing max_bin s1 = Inr s2"
    and "clip_func flib = clip_func_spec incl_low incl_high"
    and "fit_pspec flib brk log_break None None min_fits_pts verbose s2 = Inr s3"
  shows "\<exists>f p. freqs_attr s2 = Val f \<and> ps1D_attr s2 = Val p \<and> length p = length f \<and>
     (let lo = 1 / (0.5 * real (max (fst (shape (data s0))) (snd (shape (data s0)))));
          hi = Max (set f) + 1;
          x = map (log 10) (filter (within_bounds incl_low incl_high lo hi) f);
          y = map (log 10)
                (map snd (filter (\<lambda>(a, q). within_bounds incl_low incl_high lo hi a) (zip f p)))
      in low_cut s3 = Val lo \<and> high_cut s3 = Val hi \<and>
         fit_pspec flib brk log_break None None min_fits_pts verbose s2 =
           ebind (fit_break flib brk log_break min_fits_pts verbose x y
                    (s2\<lparr>low_cut := Val lo, high_cut := Val hi\<rparr>))
                 (\<lambda>(x', y', t). fit_ols flib x' y' t) \<and>
         (brk = None \<longrightarrow> (\<exists>res. ols flib x y = Inr res \<and> fit s3 = Val res)))"
proof -
  from assms(4,3) obtain P where P: "ps2D_attr s1 = Val P"
    and shP: "map length P = fftshift1 (map length (weighted_data s0))"
    by (rule compute_pspec_shape)
  have "map length (weighted_data s0) = replicate (length (data s0)) nx"
    using init_weighted_shape [OF assms(1)] rectangular_lengths [OF assms(2)] by simp
  then have "map length P = map length (data s0)"
    using shP rectangular_lengths [OF assms(2)] by (simp add: fftshift1_replicate)
  then have shape: "shape P = shape (data s0)" by (rule shape_cong)
  have P2: "ps2D_attr s2 = Val P"
    using compute_radial_pspec_frame(1) [OF assms(5)] P by simp
  from fit_pspec_default_stages [OF assms(7)] obtain p2 f p where
    p2: "ps2D_attr s2 = Val p2" and f: "freqs_attr s2 = Val f" and p: "ps1D_attr s2 = Val p"
    and len: "length p = length f"
    and rest: "let lo = 1 / (0.5 * real (max (fst (shape p2)) (snd (shape p2))));
          hi = Max (set f) + 1;
          keep = clip_func flib f lo hi;
          x = map (log 10) (map fst (filter snd (zip f keep)));
          y = map (log 10) (map fst (filter snd (zip p keep)))
      in length keep = length f \<and> low_cut s3 = Val lo \<and> high_cut s3 = Val hi \<and>
         fit_pspec flib brk log_break None None min_fits_pts verbose s2 =
           ebind (fit_break flib brk log_break min_fits_pts verbose x y
                    (s2\<lparr>low_cut := Val lo, high_cut := Val hi\<rparr>))
                 (\<lambda>(x', y', s2). fit_ols flib x' y' s2) \<and>
         (brk = None \<longrightarrow> (\<exists>res. ols flib x y = Inr res \<and> fit s3 = Val res))"
    by blast
  have pp: "p2 = P" using p2 P2 by simp
  show ?thesis
    apply (rule exI [of _ f], rule exI [of _ p])
    using f p len rest
    unfolding Let_def pp shape assms(6) clip_func_spec_def
      select_by_mask select_other_by_mask [OF len]
    by blast
qed

theorem default_cutoffs_witness:
  "low_cut demo_binned_fitted = Val 1 \<and> high_cut demo_binned_fitted = Val 11
   \<and> ols demo_fit_lib [1] [0] = Inr \<lparr> params = [1, - 1], bse = [1 / 10, 1 / 20] \<rparr>
   \<and> fit demo_binned_fitted = Val \<lparr> params = [1, - 1], bse = [1 / 10, 1 / 20] \<rparr>"
proof -
  have a: "data demo_constructed = [[1, 0], [2, 3]]"
    by (simp add: demo_constructed_def)
  have r: "list_all (\<lambda>r. length r = 2) (data demo_constructed)"
    by (simp add: a)
  have b: "freqs_attr demo_binned = Val [1 / 10, 1, 10]"
    "ps1D_attr demo_binned = Val [100, 10, 1]"
    by (simp_all add: demo_binned_def)
  show ?thesis
    using default_cutoffs [OF demo_init r demo_shape_preserved demo_compute demo_binned_radial
        demo_clip demo_binned_fit_run]
    by (simp add: a b Let_def shape_def within_bounds_def demo_ols)
qed

end
